theory Spec2Isabelle
  imports Complex_Main "HOL-Library.Monad_Syntax"
begin

section \<open>Values shared by the pipeline stages\<close>

text \<open>
  Times, durations, pitches and energies are Python floats in the source. They are
  modelled as exact reals: rounding of the binary floating-point operations is not
  part of the model. Python's unbounded integers are \<open>int\<close>.
\<close>


text \<open>
  \<^verbatim>\<open>xs[i]\<close>: a negative index counts from the end, an index out of range raises
  IndexError (the value \<open>None\<close>).
\<close>

definition py_get :: "'a list \<Rightarrow> int \<Rightarrow> 'a option" where
  "py_get xs i =
     (let n = int (length xs); j = (if i < 0 then n + i else i)
      in if 0 \<le> j \<and> j < n then Some (xs ! nat j) else None)"

text \<open>
  An optional numeric entry of a word dictionary: the key may be missing, or hold
  \<^verbatim>\<open>None\<close> (JSON null), or hold a float.
\<close>

datatype field = Absent | Null | Num real

text \<open>\<^verbatim>\<open>'k' in d and d['k']\<close>: the key is there and its value is truthy.\<close>

definition present_and_truthy :: "field \<Rightarrow> bool" where
  "present_and_truthy f = (case f of Absent \<Rightarrow> False | Null \<Rightarrow> False | Num v \<Rightarrow> v \<noteq> 0)"

fun str_nat :: "nat \<Rightarrow> string" where
  "str_nat n =
     (if n < 10 then [char_of (48 + n)]
      else str_nat (n div 10) @ [char_of (48 + n mod 10)])"

declare str_nat.simps [simp del]

section \<open>Dual-frame word records\<close>

record time_frame =
  tf_start :: real
  tf_end :: real
  tf_duration :: real

record word_timing =
  index :: int
  word :: string
  time_relative :: time_frame
  time_absolute :: time_frame
  avg_pitch_hz :: field
  avg_energy_db :: field

section \<open>Chunker: \<^verbatim>\<open>create_line_chunks_from_json\<close>\<close>

record chunk =
  line_number :: int
  chunk_path :: string
  target_text :: string
  duration :: real
  time_range :: "real \<times> real"
  line_avg_pitch_hz :: "real option"
  line_avg_energy_db :: "real option"
  word_count :: int

text \<open>One pass of the loop \<^verbatim>\<open>for line_num in range(4)\<close> that builds the index ranges.\<close>

definition range_step ::
  "int \<Rightarrow> int \<Rightarrow> int \<Rightarrow> (int \<times> int) list \<times> int \<Rightarrow> int \<Rightarrow> (int \<times> int) list \<times> int" where
  "range_step total_words words_per_line remainder st line_num =
     (case st of (ranges, current_idx) \<Rightarrow>
        let line_size = words_per_line + (if line_num < remainder then 1 else 0);
            end_idx = min (current_idx + line_size - 1) (total_words - 1)
        in (ranges @ [(current_idx, end_idx)], end_idx + 1))"

definition line_word_ranges :: "int \<Rightarrow> (int \<times> int) list" where
  "line_word_ranges total_words =
     fst (foldl (range_step total_words (total_words div 4) (total_words mod 4))
            ([], 0) [0, 1, 2, 3])"

text \<open>
  The target lines are a Python list object that the caller shares with the callee.
  Lists live in a heap, addressed by a reference; \<^verbatim>\<open>append\<close> updates the object in
  place, a slice builds a fresh list that only the local name sees.
\<close>

type_synonym lines_heap = "nat \<Rightarrow> string list"

text \<open>\<^verbatim>\<open>while len(target_lines) < 4: target_lines.append("")\<close>\<close>

function pad_target_lines :: "string list \<Rightarrow> string list" where
  "pad_target_lines ls = (if length ls < 4 then pad_target_lines (ls @ ['''']) else ls)"
  by pat_completeness auto
termination
  by (relation "measure (\<lambda>ls. 4 - length ls)") auto

declare pad_target_lines.simps [simp del]

definition ensure_four_lines :: "lines_heap \<Rightarrow> nat \<Rightarrow> lines_heap \<times> string list" where
  "ensure_four_lines h target_lines =
     (if length (h target_lines) \<noteq> 4
      then (let h' = h(target_lines := pad_target_lines (h target_lines))
            in (h', take 4 (h' target_lines)))
      else (h, h target_lines))"

text \<open>The values a line collects from its words: only entries that pass the truthiness test.\<close>

definition collect_values :: "(word_timing \<Rightarrow> field) \<Rightarrow> word_timing list \<Rightarrow> real list" where
  "collect_values key ws =
     concat (map (\<lambda>w. case key w of Num v \<Rightarrow> if present_and_truthy (Num v) then [v] else []
                                   | _ \<Rightarrow> []) ws)"

definition line_average :: "real list \<Rightarrow> real option" where
  "line_average vs = (if vs \<noteq> [] then Some (sum_list vs / real (length vs)) else None)"


text \<open>
  The body of the chunk loop for one line. Besides the chunk dictionary it yields the
  bounds (in milliseconds) of the slice \<^verbatim>\<open>audio[chunk_start:chunk_end]\<close> that is exported
  to \<^verbatim>\<open>chunk_path\<close>. \<open>audio_len\<close> is \<^verbatim>\<open>len(audio)\<close>, the length of the region in
  milliseconds.
\<close>

definition make_chunk ::
  "word_timing list \<Rightarrow> string list \<Rightarrow> int \<Rightarrow> string \<Rightarrow> nat \<Rightarrow> int \<Rightarrow> int
     \<Rightarrow> (chunk \<times> real \<times> real) option" where
  "make_chunk word_timings target_lines audio_len output_dir line_idx start_word_idx end_word_idx =
     do {
       first_word \<leftarrow> py_get word_timings start_word_idx;
       last_word \<leftarrow> py_get word_timings end_word_idx;
       let start_time_relative = tf_start (time_relative first_word);
       let end_time_relative = tf_end (time_relative last_word);
       let start_time_ms = start_time_relative * 1000;
       let end_time_ms = end_time_relative * 1000;
       let padding_ms = 50;
       let chunk_start = max 0 (start_time_ms - padding_ms);
       let chunk_end = min (real_of_int audio_len) (end_time_ms + padding_ms);
       line_words \<leftarrow> those (map (py_get word_timings) [start_word_idx..end_word_idx]);
       let pitch_values = collect_values avg_pitch_hz line_words;
       let energy_values = collect_values avg_energy_db line_words;
       target \<leftarrow> py_get target_lines (int line_idx);
       Some (\<lparr> line_number = int line_idx + 1,
               chunk_path = output_dir @ ''/chunk_line_'' @ str_nat (line_idx + 1) @ ''.wav'',
               target_text = target,
               duration = (chunk_end - chunk_start) / 1000,
               time_range = (start_time_relative, end_time_relative),
               line_avg_pitch_hz = line_average pitch_values,
               line_avg_energy_db = line_average energy_values,
               word_count = end_word_idx - start_word_idx + 1 \<rparr>,
             chunk_start, chunk_end)
     }"

text \<open>
  \<^verbatim>\<open>for line_idx, (start_word_idx, end_word_idx) in enumerate(line_word_ranges)\<close>, with its
  \<^verbatim>\<open>break\<close> at the first range that starts beyond the word list.
\<close>

fun chunk_loop ::
  "word_timing list \<Rightarrow> string list \<Rightarrow> int \<Rightarrow> string \<Rightarrow> (nat \<times> int \<times> int) list
     \<Rightarrow> (chunk \<times> real \<times> real) list option" where
  "chunk_loop word_timings target_lines audio_len output_dir [] = Some []"
| "chunk_loop word_timings target_lines audio_len output_dir
       ((line_idx, start_word_idx, end_word_idx) # rest) =
     (if start_word_idx \<ge> int (length word_timings) then Some []
      else do {
        c \<leftarrow> make_chunk word_timings target_lines audio_len output_dir
               line_idx start_word_idx end_word_idx;
        cs \<leftarrow> chunk_loop word_timings target_lines audio_len output_dir rest;
        Some (c # cs)
      })"

text \<open>
  The function returns the heap as the call leaves it, and the chunks with their
  exported slices; \<open>None\<close> stands for an IndexError.
\<close>

definition create_line_chunks_from_json ::
  "lines_heap \<Rightarrow> int \<Rightarrow> word_timing list \<Rightarrow> nat \<Rightarrow> string
     \<Rightarrow> lines_heap \<times> (chunk \<times> real \<times> real) list option" where
  "create_line_chunks_from_json h audio_len word_timings target_lines output_dir =
     (if length word_timings = 0 then (h, Some [])
      else
        let ranges = line_word_ranges (int (length word_timings));
            (h', lines) = ensure_four_lines h target_lines
        in (h', chunk_loop word_timings lines audio_len output_dir (enumerate 0 ranges)))"

section \<open>Chunker with fixed ranges: \<^verbatim>\<open>create_line_chunks\<close>\<close>

record line_chunk =
  lc_line_number :: int
  lc_chunk_path :: string
  spanish_text :: string
  lc_duration :: real
  lc_time_range :: "real \<times> real"

text \<open>The first line ends in the two bytes of the UTF-8 encoding of i-acute.\<close>

definition spanish_lines :: "string list" where
  "spanish_lines =
     [''Toma mi mano, ven aqu'' @ [char_of (195 :: nat), char_of (173 :: nat)],
      ''Un secreto te voy a contar'',
      ''Con Giramila ven a bailar'',
      ''En un castillo ven a jugar'']"

definition fixed_line_word_ranges :: "(int \<times> int) list" where
  "fixed_line_word_ranges = [(0, 4), (5, 9), (10, 13), (14, 17)]"

definition make_line_chunk ::
  "word_timing list \<Rightarrow> int \<Rightarrow> string \<Rightarrow> nat \<Rightarrow> int \<Rightarrow> int
     \<Rightarrow> (line_chunk \<times> real \<times> real) option" where
  "make_line_chunk word_timings audio_len output_dir line_idx start_word_idx end_word_idx =
     do {
       first_word \<leftarrow> py_get word_timings start_word_idx;
       last_word \<leftarrow> py_get word_timings end_word_idx;
       let start_time_ms = tf_start (time_relative first_word) * 1000;
       let end_time_ms = tf_end (time_relative last_word) * 1000;
       let padding_ms = 100;
       let chunk_start = max 0 (start_time_ms - padding_ms);
       let chunk_end = min (real_of_int audio_len) (end_time_ms + padding_ms);
       printed_words \<leftarrow> those (map (py_get word_timings) [start_word_idx..end_word_idx]);
       spanish \<leftarrow> py_get spanish_lines (int line_idx);
       Some (\<lparr> lc_line_number = int line_idx + 1,
               lc_chunk_path = output_dir @ ''/chunk_line_'' @ str_nat (line_idx + 1) @ ''.wav'',
               spanish_text = spanish,
               lc_duration = (chunk_end - chunk_start) / 1000,
               lc_time_range = (start_time_ms / 1000, end_time_ms / 1000) \<rparr>,
             chunk_start, chunk_end)
     }"

text \<open>
  The loop has no \<^verbatim>\<open>break\<close>: an IndexError in any line ends the call, so the result is
  \<open>None\<close> as soon as one line fails.
\<close>

definition create_line_chunks ::
  "int \<Rightarrow> word_timing list \<Rightarrow> string \<Rightarrow> (line_chunk \<times> real \<times> real) list option" where
  "create_line_chunks audio_len word_timings output_dir =
     those (map (\<lambda>(line_idx, start_word_idx, end_word_idx).
                   make_line_chunk word_timings audio_len output_dir
                     line_idx start_word_idx end_word_idx)
              (enumerate 0 fixed_line_word_ranges))"

text \<open>
  For comparison with the chunker's truthiness test: the same word with every stored
  \<open>0.0\<close> average replaced by a null.
\<close>

definition zero_as_null :: "word_timing \<Rightarrow> word_timing" where
  "zero_as_null w =
     w \<lparr> avg_pitch_hz := (if avg_pitch_hz w = Num 0 then Null else avg_pitch_hz w),
         avg_energy_db := (if avg_energy_db w = Num 0 then Null else avg_energy_db w) \<rparr>"

section \<open>Numpy operations used by the analysers\<close>

text \<open>\<^verbatim>\<open>(rms_times >= start) & (rms_times <= end)\<close>\<close>

definition energy_mask :: "real list \<Rightarrow> real \<Rightarrow> real \<Rightarrow> bool list" where
  "energy_mask rms_times start_t end_t = map (\<lambda>t. start_t \<le> t \<and> t \<le> end_t) rms_times"

definition np_any :: "bool list \<Rightarrow> bool" where
  "np_any bs = list_ex (\<lambda>b. b) bs"

text \<open>
  \<^verbatim>\<open>values[mask]\<close> with a boolean mask: the entries at the positions where the mask holds;
  a mask of another length raises IndexError (\<open>None\<close>).
\<close>

definition np_select :: "real list \<Rightarrow> bool list \<Rightarrow> real list option" where
  "np_select vals bs =
     (if length vals = length bs then Some (map fst (filter snd (zip vals bs))) else None)"

definition np_mean :: "real list \<Rightarrow> real" where
  "np_mean vs = sum_list vs / real (length vs)"

definition np_min :: "real list \<Rightarrow> real" where
  "np_min vs = fold min (tl vs) (hd vs)"

definition np_max :: "real list \<Rightarrow> real" where
  "np_max vs = fold max (tl vs) (hd vs)"

text \<open>
  The list comprehension over the pitch contour, a list of (time, pitch_hz) entries:
  \<^verbatim>\<open>[p['pitch_hz'] for p in pitch_contour if start <= p['time'] <= end]\<close>
\<close>

definition word_pitches_in :: "(real \<times> real) list \<Rightarrow> real \<Rightarrow> real \<Rightarrow> real list" where
  "word_pitches_in pitch_contour start_t end_t =
     map snd (filter (\<lambda>p. start_t \<le> fst p \<and> fst p \<le> end_t) pitch_contour)"

section \<open>Timing enricher: \<^verbatim>\<open>enrich_word_timings_with_features\<close>\<close>

text \<open>A word dictionary of \<^verbatim>\<open>analyze_vocals_precise.py\<close>, with one time frame.\<close>

record word_info =
  wi_index :: int
  wi_word :: string
  wi_start :: real
  wi_end :: real
  wi_duration :: real
  onset_offset :: field
  wi_avg_energy_db :: field
  max_energy_db :: field
  wi_avg_pitch_hz :: field
  min_pitch_hz :: field
  max_pitch_hz :: field
  pitch_range_hz :: field
  avg_note :: "string option"

text \<open>
  \<^verbatim>\<open>hz_to_note\<close>: the guard of the source around the library's conversion, which is a
  parameter (\<open>None\<close> where the library raises).
\<close>

definition hz_to_note :: "(real \<Rightarrow> string option) \<Rightarrow> real \<Rightarrow> string option" where
  "hz_to_note librosa_hz_to_note freq =
     (if freq \<le> 0 \<or> freq > 8000 then None else librosa_hz_to_note freq)"

definition enrich_word ::
  "(real \<Rightarrow> string option) \<Rightarrow> (real \<times> real) list \<Rightarrow> real list \<Rightarrow> real list
     \<Rightarrow> word_info \<Rightarrow> word_info option" where
  "enrich_word librosa_hz_to_note pitch_contour rms_times rms_db w =
     (let start_t = wi_start w; end_t = wi_end w;
          in_word = energy_mask rms_times start_t end_t;
          word_pitches = word_pitches_in pitch_contour start_t end_t;
          with_pitch = (\<lambda>w1.
            if word_pitches \<noteq> []
            then w1 \<lparr> wi_avg_pitch_hz := Num (np_mean word_pitches),
                      min_pitch_hz := Num (np_min word_pitches),
                      max_pitch_hz := Num (np_max word_pitches),
                      pitch_range_hz := Num (np_max word_pitches - np_min word_pitches),
                      avg_note := hz_to_note librosa_hz_to_note (np_mean word_pitches) \<rparr>
            else w1 \<lparr> wi_avg_pitch_hz := Null, min_pitch_hz := Null, max_pitch_hz := Null,
                      pitch_range_hz := Null, avg_note := None \<rparr>)
      in if np_any in_word
         then do {
           selected \<leftarrow> np_select rms_db in_word;
           Some (with_pitch (w \<lparr> wi_avg_energy_db := Num (np_mean selected),
                                 max_energy_db := Num (np_max selected) \<rparr>))
         }
         else Some (with_pitch (w \<lparr> wi_avg_energy_db := Null, max_energy_db := Null \<rparr>)))"

text \<open>\<^verbatim>\<open>for word in word_timings\<close>; an exception in one word ends the call.\<close>

definition enrich_word_timings_with_features ::
  "(real \<Rightarrow> string option) \<Rightarrow> word_info list \<Rightarrow> (real \<times> real) list \<Rightarrow> real list \<Rightarrow> real list
     \<Rightarrow> word_info list option" where
  "enrich_word_timings_with_features librosa_hz_to_note word_timings pitch_contour rms_times rms_db =
     those (map (enrich_word librosa_hz_to_note pitch_contour rms_times rms_db) word_timings)"

section \<open>Dual-frame analysis: \<^verbatim>\<open>extract_and_analyze_specific_segment\<close>\<close>

text \<open>A word as the transcription engine returns it.\<close>

record whisper_word =
  ww_word :: string
  ww_start :: real
  ww_end :: real

definition is_space :: "char \<Rightarrow> bool" where
  "is_space c = (c \<in> set [CHR '' '', CHR 0x09, CHR 0x0A, CHR 0x0B, CHR 0x0C, CHR 0x0D])"

definition strip :: "string \<Rightarrow> string" where
  "strip s = rev (dropWhile is_space (rev (dropWhile is_space s)))"

text \<open>
  The body of \<^verbatim>\<open>for i, word in enumerate(transcription.words)\<close>: both time frames, then
  the pitch and energy averages, whose keys are set only when samples fall in the word.
\<close>

definition dual_frame_word ::
  "real \<Rightarrow> (real \<times> real) list \<Rightarrow> real list \<Rightarrow> real list \<Rightarrow> nat \<Rightarrow> whisper_word
     \<Rightarrow> word_timing option" where
  "dual_frame_word start_time pitch_contour rms_times rms_db i w =
     (let time_relative_start = ww_start w;
          time_relative_end = ww_end w;
          time_absolute_start = start_time + time_relative_start;
          time_absolute_end = start_time + time_relative_end;
          word_data =
            \<lparr> index = int i, word = strip (ww_word w),
              time_relative = \<lparr> tf_start = time_relative_start, tf_end = time_relative_end,
                                tf_duration = time_relative_end - time_relative_start \<rparr>,
              time_absolute = \<lparr> tf_start = time_absolute_start, tf_end = time_absolute_end,
                                tf_duration = time_absolute_end - time_absolute_start \<rparr>,
              avg_pitch_hz = Absent, avg_energy_db = Absent \<rparr>;
          word_pitches = word_pitches_in pitch_contour time_relative_start time_relative_end;
          word_data1 = (if word_pitches \<noteq> []
                        then word_data \<lparr> avg_pitch_hz := Num (np_mean word_pitches) \<rparr>
                        else word_data);
          in_word = energy_mask rms_times time_relative_start time_relative_end
      in if np_any in_word
         then do {
           selected \<leftarrow> np_select rms_db in_word;
           Some (word_data1 \<lparr> avg_energy_db := Num (np_mean selected) \<rparr>)
         }
         else Some word_data1)"

text \<open>
  \<^verbatim>\<open>word_timings_dual\<close>: empty when the transcription has no \<^verbatim>\<open>words\<close> attribute
  (\<open>None\<close> as the argument) or an empty word list.
\<close>

definition word_timings_dual ::
  "real \<Rightarrow> (real \<times> real) list \<Rightarrow> real list \<Rightarrow> real list \<Rightarrow> whisper_word list option
     \<Rightarrow> word_timing list option" where
  "word_timings_dual start_time pitch_contour rms_times rms_db transcription_words =
     (case transcription_words of
        None \<Rightarrow> Some []
      | Some ws \<Rightarrow>
          those (map (\<lambda>(i, w). dual_frame_word start_time pitch_contour rms_times rms_db i w)
                   (enumerate 0 ws)))"

text \<open>
  The enrichment as the specification words it: the values of all samples (time, value)
  whose time lies in the closed interval from \<open>lo\<close> to \<open>hi\<close>.
\<close>

definition closed_span_values :: "(real \<times> real) list \<Rightarrow> real \<Rightarrow> real \<Rightarrow> real list" where
  "closed_span_values samples lo hi = [v. (t, v) \<leftarrow> samples, lo \<le> t \<and> t \<le> hi]"

section \<open>Synthesis of the chunks: \<^verbatim>\<open>generate_target_chunk\<close>, \<^verbatim>\<open>merge_target_chunks\<close>\<close>

text \<open>
  Audio is a list of samples here, and the audio files on disk are a map from paths to
  their samples: \<^verbatim>\<open>torchaudio.load\<close> of a path that is not there raises (\<open>None\<close>),
  \<^verbatim>\<open>torchaudio.save\<close> and \<^verbatim>\<open>export\<close> write the entry.
\<close>

type_synonym samples = "real list"

type_synonym files = "string \<rightharpoonup> samples"

text \<open>
  Iterating \<^verbatim>\<open>cosyvoice.inference_cross_lingual(...)\<close>: the generator yields its outputs
  and ends, or raises after the outputs it has yielded so far.
\<close>

datatype inference = Yielded "samples list" | Raised "samples list"

definition str_int :: "int \<Rightarrow> string" where
  "str_int i = (if i < 0 then ''-'' @ str_nat (nat (- i)) else str_nat (nat i))"

text \<open>
  The engine \<open>cosyvoice\<close> and the conversion of the reference to 16 kHz mono are
  parameters. The result is the new state of the disk and the returned value, the output
  path or \<^verbatim>\<open>None\<close>; no result at all (\<open>None\<close>) is the exception of \<^verbatim>\<open>torchaudio.load\<close>,
  which is outside the \<^verbatim>\<open>try\<close>.
\<close>

definition generate_target_chunk ::
  "(string \<Rightarrow> samples \<Rightarrow> inference) \<Rightarrow> (samples \<Rightarrow> samples) \<Rightarrow> files \<Rightarrow> chunk \<Rightarrow> string
     \<Rightarrow> (files \<times> string option) option" where
  "generate_target_chunk cosyvoice to_16k_mono fs chunk_info output_path =
     (case fs (chunk_path chunk_info) of
        None \<Rightarrow> None
      | Some ref_waveform \<Rightarrow>
          let prompt_speech_16k = to_16k_mono ref_waveform
          in (case cosyvoice (target_text chunk_info) prompt_speech_16k of
                Raised partial_chunks \<Rightarrow> Some (fs, None)
              | Yielded audio_chunks \<Rightarrow>
                  if audio_chunks \<noteq> []
                  then Some (fs(output_path \<mapsto> concat audio_chunks), Some output_path)
                  else Some (fs, None)))"

text \<open>
  One pass of \<^verbatim>\<open>for i, chunk_path in enumerate(chunk_outputs)\<close>: the test
  \<^verbatim>\<open>chunk_path and os.path.exists(chunk_path)\<close> lets through a non-empty path of a file
  that is there.
\<close>

definition merge_step :: "files \<Rightarrow> samples \<Rightarrow> string option \<Rightarrow> samples" where
  "merge_step fs merged_audio chunk_output =
     (case chunk_output of
        None \<Rightarrow> merged_audio
      | Some p \<Rightarrow>
          (if p \<noteq> []
           then (case fs p of None \<Rightarrow> merged_audio | Some chunk_audio \<Rightarrow> merged_audio @ chunk_audio)
           else merged_audio))"

definition merge_target_chunks :: "files \<Rightarrow> string option list \<Rightarrow> string \<Rightarrow> files \<times> string" where
  "merge_target_chunks fs chunk_outputs output_path =
     (let merged_audio = foldl (merge_step fs) [] chunk_outputs
      in (fs(output_path \<mapsto> merged_audio), output_path))"

text \<open>
  The second half of \<^verbatim>\<open>process_segment\<close>, from the chunks that
  \<^verbatim>\<open>create_line_chunks_from_json\<close> returned: the loop that collects \<^verbatim>\<open>chunk_outputs\<close>,
  then the merge.
\<close>

definition target_output_path :: "string \<Rightarrow> string \<Rightarrow> string \<Rightarrow> chunk \<Rightarrow> string" where
  "target_output_path output_dir language part_name chunk_info =
     output_dir @ ''/'' @ language @ ''_'' @ part_name @ ''_line_''
       @ str_int (line_number chunk_info) @ ''.wav''"

fun chunk_outputs_loop ::
  "(string \<Rightarrow> samples \<Rightarrow> inference) \<Rightarrow> (samples \<Rightarrow> samples) \<Rightarrow> string \<Rightarrow> string \<Rightarrow> string
     \<Rightarrow> files \<Rightarrow> chunk list \<Rightarrow> (files \<times> string option list) option" where
  "chunk_outputs_loop cosyvoice to_16k_mono output_dir language part_name fs [] = Some (fs, [])"
| "chunk_outputs_loop cosyvoice to_16k_mono output_dir language part_name fs (chunk_info # chunks) =
     do {
       (fs1, result) \<leftarrow> generate_target_chunk cosyvoice to_16k_mono fs chunk_info
                          (target_output_path output_dir language part_name chunk_info);
       (fs2, chunk_outputs) \<leftarrow>
          chunk_outputs_loop cosyvoice to_16k_mono output_dir language part_name fs1 chunks;
       Some (fs2, result # chunk_outputs)
     }"

definition process_segment ::
  "(string \<Rightarrow> samples \<Rightarrow> inference) \<Rightarrow> (samples \<Rightarrow> samples) \<Rightarrow> string \<Rightarrow> string \<Rightarrow> string
     \<Rightarrow> files \<Rightarrow> chunk list \<Rightarrow> (files \<times> string) option" where
  "process_segment cosyvoice to_16k_mono output_dir language part_name fs chunks =
     do {
       (fs1, chunk_outputs) \<leftarrow>
          chunk_outputs_loop cosyvoice to_16k_mono output_dir language part_name fs chunks;
       let final_output = output_dir @ ''/'' @ language @ ''_'' @ part_name @ ''_merged.wav'';
       Some (merge_target_chunks fs1 chunk_outputs final_output)
     }"

text \<open>
  The outcome of one synthesis as the specification words it: it failed when the engine
  raised or gave no output.
\<close>

definition synthesis_failed :: "inference \<Rightarrow> bool" where
  "synthesis_failed r = (case r of Raised partial_chunks \<Rightarrow> True | Yielded audio_chunks \<Rightarrow> audio_chunks = [])"

section \<open>Duration reconciliation in \<^verbatim>\<open>generate_from_analysis.py\<close>\<close>








section \<open>Timeline assembler: \<^verbatim>\<open>merge_vocals_to_timeline\<close>\<close>











section \<open>Trimming a segment: \<^verbatim>\<open>trim_segment_to_word\<close>\<close>

text \<open>
  The analysis report of \<^verbatim>\<open>analyze_vocals_precise.py\<close>, with the entries that the
  trimming reads or writes and the feature series that it carries along. A pitch or
  energy sample is a (time, value) pair, a gap a (start, end) pair, a transcription
  segment a (text, start, end) triple.
\<close>

record segment_range =
  sr_start :: real
  sr_end :: real
  sr_duration :: real

record audio_analysis =
  aa_duration :: real
  aa_onset_times :: "real list"
  aa_pitch_contour :: "(real \<times> real) list"
  aa_energy_contour :: "(real \<times> real) list"
  aa_gaps :: "(real \<times> real) list"

record transcription =
  tr_full_text :: string
  tr_word_timings :: "word_info list"
  tr_segments :: "(string \<times> real \<times> real) list"

record word_file =
  wf_index :: int
  wf_word :: string
  wf_filepath :: string

record summary =
  sm_total_words :: int
  sm_silent_gaps :: int

record analysis_report =
  ar_segment_file :: string
  ar_segment_range :: segment_range
  ar_audio_analysis :: audio_analysis
  ar_transcription :: transcription
  ar_word_segments :: "word_file list"
  ar_summary :: summary








section \<open>Sample inputs\<close>

text \<open>
  A transcript of \<open>n\<close> half-second words, one per second, in a region that starts at
  second 6 of the source recording.
\<close>

definition sample_word :: "nat \<Rightarrow> word_timing" where
  "sample_word i =
     \<lparr> index = int i, word = ''la'',
       time_relative = \<lparr> tf_start = real i, tf_end = real i + 1 / 2, tf_duration = 1 / 2 \<rparr>,
       time_absolute = \<lparr> tf_start = 6 + real i, tf_end = 6 + (real i + 1 / 2), tf_duration = 1 / 2 \<rparr>,
       avg_pitch_hz = Num 220, avg_energy_db = Num (- 12) \<rparr>"

definition sample_words :: "nat \<Rightarrow> word_timing list" where
  "sample_words n = map sample_word [0..<n]"

definition sample_heap :: lines_heap where
  "sample_heap = (\<lambda>_. [])(0 := [''uno'', ''dos'', ''tres'', ''cuatro''], 7 := [''uno''])"

text \<open>
  Five words whose stored averages are given; the first word is the loudest frame of
  its region (0.0 dB) and has pitch 0.0.
\<close>

definition measured_word :: "nat \<Rightarrow> real \<Rightarrow> real \<Rightarrow> word_timing" where
  "measured_word i p e = (sample_word i) \<lparr> avg_pitch_hz := Num p, avg_energy_db := Num e \<rparr>"

definition loud_words :: "word_timing list" where
  "loud_words =
     [measured_word 0 0 0, measured_word 1 200 (- 10), measured_word 2 210 (- 20),
      measured_word 3 220 (- 20), measured_word 4 230 (- 20)]"

text \<open>
  Two transcribed words, 0.5-1.0 s and 1.5-1.5 s (a word of no duration), with pitch
  samples on both ends of the first word and energy frames every quarter second.
\<close>

definition sample_info :: "nat \<Rightarrow> string \<Rightarrow> real \<Rightarrow> real \<Rightarrow> word_info" where
  "sample_info i txt s e =
     \<lparr> wi_index = int i, wi_word = txt, wi_start = s, wi_end = e, wi_duration = e - s,
       onset_offset = Absent, wi_avg_energy_db = Absent, max_energy_db = Absent,
       wi_avg_pitch_hz = Absent, min_pitch_hz = Absent, max_pitch_hz = Absent,
       pitch_range_hz = Absent, avg_note = None \<rparr>"

definition sample_infos :: "word_info list" where
  "sample_infos = [sample_info 0 ''ser'' (1 / 2) 1, sample_info 1 ''feliz'' (11 / 8) (11 / 8)]"

definition sample_pitch_contour :: "(real \<times> real) list" where
  "sample_pitch_contour = [(1 / 4, 100), (1 / 2, 200), (1, 240), (5 / 4, 300)]"

definition sample_rms_times :: "real list" where
  "sample_rms_times = [0, 1 / 4, 1 / 2, 3 / 4, 1, 5 / 4, 3 / 2]"

definition sample_rms_db :: "real list" where
  "sample_rms_db = [- 40, - 30, - 12, 0, - 6, - 30, - 40]"


definition no_note :: "real \<Rightarrow> string option" where
  "no_note freq = None"


text \<open>
  Four chunks with their reference files on disk, and an engine that raises on the
  second text after a first output and gives no output for the third.
\<close>

definition sample_chunk :: "nat \<Rightarrow> string \<Rightarrow> chunk" where
  "sample_chunk k txt =
     \<lparr> line_number = int k, chunk_path = ''c'' @ str_nat k, target_text = txt, duration = 2,
       time_range = (0, 2), line_avg_pitch_hz = None, line_avg_energy_db = None, word_count = 5 \<rparr>"

definition sample_chunks :: "chunk list" where
  "sample_chunks = [sample_chunk 1 ''uno'', sample_chunk 2 ''dos'', sample_chunk 3 ''tres'',
                    sample_chunk 4 ''cuatro'']"

definition sample_files :: files where
  "sample_files = [''c1'' \<mapsto> [1], ''c2'' \<mapsto> [2], ''c3'' \<mapsto> [3], ''c4'' \<mapsto> [4]]"

definition sample_engine :: "string \<Rightarrow> samples \<Rightarrow> inference" where
  "sample_engine tts_text prompt =
     (if tts_text = ''dos'' then Raised [prompt]
      else if tts_text = ''tres'' then Yielded []
      else Yielded [prompt, [0], prompt])"










section \<open>Properties of the chunker\<close>

lemma line_word_ranges_explicit:
  assumes "0 < n"
  shows "line_word_ranges n =
           (let b = n div 4; r = n mod 4;
                s0 = b + (if 0 < r then 1 else 0);
                s1 = b + (if 1 < r then 1 else 0);
                s2 = b + (if 2 < r then 1 else 0);
                s3 = b + (if 3 < r then 1 else 0)
            in [(0, s0 - 1), (s0, s0 + s1 - 1), (s0 + s1, s0 + s1 + s2 - 1),
                (s0 + s1 + s2, s0 + s1 + s2 + s3 - 1)])"
proof -
  have r: "0 \<le> n mod 4" "n mod 4 < 4" by simp_all
  have n: "n = 4 * (n div 4) + n mod 4" by simp
  have b: "0 \<le> n div 4" using assms by simp
  consider "n mod 4 = 0" | "n mod 4 = 1" | "n mod 4 = 2" | "n mod 4 = 3"
    using r by arith
  then show ?thesis
  proof cases
    case 1
    then show ?thesis using n b
      by (simp add: line_word_ranges_def range_step_def Let_def min_def)
  next
    case 2
    then show ?thesis using n b
      by (simp add: line_word_ranges_def range_step_def Let_def min_def)
  next
    case 3
    then show ?thesis using n b
      by (simp add: line_word_ranges_def range_step_def Let_def min_def)
  next
    case 4
    then show ?thesis using n b
      by (simp add: line_word_ranges_def range_step_def Let_def min_def)
  qed
qed


lemma py_get_in_range: "0 \<le> i \<Longrightarrow> i < int (length xs) \<Longrightarrow> py_get xs i = Some (xs ! nat i)"
  by (simp add: py_get_def)

lemma those_map_Some:
  "(\<And>x. x \<in> set xs \<Longrightarrow> f x = Some (g x)) \<Longrightarrow> those (map f xs) = Some (map g xs)"
  by (induction xs) simp_all

lemma line_words_in_range:
  assumes "0 \<le> s" "e < int (length wt)"
  shows "those (map (py_get wt) [s..e]) = Some (map (\<lambda>i. wt ! nat i) [s..e])"
  using assms by (intro those_map_Some py_get_in_range) auto

lemma make_chunk_in_range:
  assumes "0 \<le> s" "s \<le> e" "e < int (length wt)" "k < length lines"
  shows "make_chunk wt lines al od k s e =
           Some (\<lparr> line_number = int k + 1,
                   chunk_path = od @ ''/chunk_line_'' @ str_nat (k + 1) @ ''.wav'',
                   target_text = lines ! k,
                   duration = (min (real_of_int al) (tf_end (time_relative (wt ! nat e)) * 1000 + 50)
                                - max 0 (tf_start (time_relative (wt ! nat s)) * 1000 - 50)) / 1000,
                   time_range = (tf_start (time_relative (wt ! nat s)), tf_end (time_relative (wt ! nat e))),
                   line_avg_pitch_hz = line_average (collect_values avg_pitch_hz (map (\<lambda>i. wt ! nat i) [s..e])),
                   line_avg_energy_db = line_average (collect_values avg_energy_db (map (\<lambda>i. wt ! nat i) [s..e])),
                   word_count = e - s + 1 \<rparr>,
                 max 0 (tf_start (time_relative (wt ! nat s)) * 1000 - 50),
                 min (real_of_int al) (tf_end (time_relative (wt ! nat e)) * 1000 + 50))"
proof -
  have 1: "py_get wt s = Some (wt ! nat s)" using assms by (simp add: py_get_in_range)
  have 2: "py_get wt e = Some (wt ! nat e)" using assms by (simp add: py_get_in_range)
  have 3: "py_get lines (int k) = Some (lines ! k)" using assms by (simp add: py_get_in_range)
  show ?thesis
    unfolding make_chunk_def
    by (simp add: 1 2 3 line_words_in_range [OF assms(1,3)] Let_def)
qed


lemma all_less_4: "(\<forall>k<4. P k) \<longleftrightarrow> P 0 \<and> P (Suc 0) \<and> P 2 \<and> P (3::nat)"
proof -
  have "k < 4 \<longleftrightarrow> k = 0 \<or> k = Suc 0 \<or> k = 2 \<or> k = 3" for k :: nat by arith
  then show ?thesis by auto
qed

lemma chunk_loop_four:
  assumes v: "\<And>k. k < 4 \<Longrightarrow> 0 \<le> fst (rs ! k) \<and> fst (rs ! k) \<le> snd (rs ! k) \<and> snd (rs ! k) < int (length wt)"
    and rs: "length rs = 4" and lines: "length lines = 4"
  shows "\<exists>cs. chunk_loop wt lines al od (enumerate 0 rs) = Some cs \<and> length cs = 4 \<and>
           (\<forall>k<4. make_chunk wt lines al od k (fst (rs ! k)) (snd (rs ! k)) = Some (cs ! k))"
proof -
  obtain a b c d where abcd: "rs = [a, b, c, d]"
    using rs by (auto simp: length_Suc_conv numeral_eq_Suc)
  have m: "\<exists>x. make_chunk wt lines al od k (fst (rs ! k)) (snd (rs ! k)) = Some x" if "k < 4" for k
    using make_chunk_in_range [of "fst (rs ! k)" "snd (rs ! k)" wt k lines al od] v [OF that] that lines
    by simp
  obtain x0 where x0: "make_chunk wt lines al od 0 (fst a) (snd a) = Some x0" 
    using m [of 0] by (auto simp: abcd)
  obtain x1 where x1: "make_chunk wt lines al od (Suc 0) (fst b) (snd b) = Some x1" 
    using m [of 1] by (auto simp: abcd)
  obtain x2 where x2: "make_chunk wt lines al od 2 (fst c) (snd c) = Some x2" 
    using m [of 2] by (auto simp: abcd)
  obtain x3 where x3: "make_chunk wt lines al od 3 (fst d) (snd d) = Some x3" 
    using m [of 3] by (auto simp: abcd)
  have s: "\<not> int (length wt) \<le> fst a" "\<not> int (length wt) \<le> fst b"
     "\<not> int (length wt) \<le> fst c" "\<not> int (length wt) \<le> fst d"
    using v [of 0] v [of 1] v [of 2] v [of 3] by (simp_all add: abcd)
  have "chunk_loop wt lines al od (enumerate 0 rs) = Some [x0, x1, x2, x3]"
    using s x0 x1 x2 x3
    by (cases a; cases b; cases c; cases d) (simp add: abcd numeral_2_eq_2 numeral_3_eq_3)
  then show ?thesis using x0 x1 x2 x3 by (simp add: all_less_4 abcd)
qed


lemma line_word_ranges_valid:
  assumes "4 \<le> n" "k < 4"
  shows "0 \<le> fst (line_word_ranges n ! k) \<and> fst (line_word_ranges n ! k) \<le> snd (line_word_ranges n ! k)
           \<and> snd (line_word_ranges n ! k) < n"
proof -
  define b where "b = n div 4"
  define r where "r = n mod 4"
  have r: "0 \<le> r" "r < 4" by (simp_all add: r_def)
  have n: "n = 4 * b + r" by (simp add: b_def r_def)
  have b: "1 \<le> b" using assms by (simp add: b_def)
  have pos: "0 < n" using assms by simp
  have rs: "line_word_ranges n =
      (let s0 = b + (if 0 < r then 1 else 0);
           s1 = b + (if 1 < r then 1 else 0);
           s2 = b + (if 2 < r then 1 else 0);
           s3 = b + (if 3 < r then 1 else 0)
       in [(0, s0 - 1), (s0, s0 + s1 - 1), (s0 + s1, s0 + s1 + s2 - 1),
           (s0 + s1 + s2, s0 + s1 + s2 + s3 - 1)])"
    using line_word_ranges_explicit [OF pos] by (simp add: Let_def b_def r_def)
  from assms(2) consider "k = 0" | "k = 1" | "k = 2" | "k = 3" by arith
  then show ?thesis
    using r b unfolding rs Let_def by cases (auto simp: n)
qed

lemma make_chunk_total:
  assumes "0 \<le> s" "s \<le> e" "e < int (length wt)" "k < length lines"
  shows "\<exists>x. make_chunk wt lines al od k s e = Some x"
  using make_chunk_in_range [OF assms] by blast

lemma line_word_ranges_small:
  "line_word_ranges 1 = [(0, 0), (1, 0), (1, 0), (1, 0)]"
  "line_word_ranges 2 = [(0, 0), (1, 1), (2, 1), (2, 1)]"
  "line_word_ranges 3 = [(0, 0), (1, 1), (2, 2), (3, 2)]"
  by (simp_all add: line_word_ranges_def range_step_def)

lemma chunk_loop_line_ranges:
  assumes wt: "wt \<noteq> []" and lines: "length lines = 4"
  shows "\<exists>cs. chunk_loop wt lines al od (enumerate 0 (line_word_ranges (int (length wt)))) = Some cs
           \<and> int (length cs) = min 4 (int (length wt))
           \<and> (\<forall>k<length cs.
                 0 \<le> fst (line_word_ranges (int (length wt)) ! k)
               \<and> fst (line_word_ranges (int (length wt)) ! k) \<le> snd (line_word_ranges (int (length wt)) ! k)
               \<and> snd (line_word_ranges (int (length wt)) ! k) < int (length wt)
               \<and> make_chunk wt lines al od k (fst (line_word_ranges (int (length wt)) ! k))
                    (snd (line_word_ranges (int (length wt)) ! k)) = Some (cs ! k))"
proof -
  define n where "n = int (length wt)"
  have pos: "0 < n" using wt by (simp add: n_def)
  then consider "n = 1" | "n = 2" | "n = 3" | "4 \<le> n" by arith
  then show ?thesis
  proof cases
    case 1
    obtain x0 where x0: "make_chunk wt lines al od 0 0 0 = Some x0"
      using make_chunk_total [of 0 0 wt 0 lines al od] 1 lines wt by (auto simp: n_def)
    show ?thesis using 1 x0 by (simp add: n_def [symmetric] line_word_ranges_small)
  next
    case 2
    obtain x0 where x0: "make_chunk wt lines al od 0 0 0 = Some x0"
      using make_chunk_total [of 0 0 wt 0 lines al od] 2 lines wt by (auto simp: n_def)
    obtain x1 where x1: "make_chunk wt lines al od (Suc 0) 1 1 = Some x1"
      using make_chunk_total [of 1 1 wt 1 lines al od] 2 lines wt by (auto simp: n_def)
    show ?thesis using 2 x0 x1
      by (simp add: n_def [symmetric] line_word_ranges_small all_less_4 less_Suc_eq)
  next
    case 3
    obtain x0 where x0: "make_chunk wt lines al od 0 0 0 = Some x0"
      using make_chunk_total [of 0 0 wt 0 lines al od] 3 lines wt by (auto simp: n_def)
    obtain x1 where x1: "make_chunk wt lines al od (Suc 0) 1 1 = Some x1"
      using make_chunk_total [of 1 1 wt 1 lines al od] 3 lines wt by (auto simp: n_def)
    obtain x2 where x2: "make_chunk wt lines al od 2 2 2 = Some x2"
      using make_chunk_total [of 2 2 wt 2 lines al od] 3 lines wt by (auto simp: n_def)
    show ?thesis using 3 x0 x1 x2
      by (simp add: n_def [symmetric] line_word_ranges_small numeral_2_eq_2 less_Suc_eq)
  next
    case 4
    have len: "length (line_word_ranges n) = 4"
      using line_word_ranges_explicit [OF pos] by (simp add: Let_def)
    from chunk_loop_four [of "line_word_ranges n" wt lines al od, OF _ len lines]
      line_word_ranges_valid [OF 4]
    obtain cs where cs: "chunk_loop wt lines al od (enumerate 0 (line_word_ranges n)) = Some cs"
      "length cs = 4"
      "\<forall>k<4. make_chunk wt lines al od k (fst (line_word_ranges n ! k)) (snd (line_word_ranges n ! k)) = Some (cs ! k)"
      unfolding n_def by blast
    show ?thesis using cs 4 line_word_ranges_valid [OF 4] by (simp add: n_def [symmetric])
  qed
qed

lemma upto_glue: "i \<le> j + 1 \<Longrightarrow> j \<le> k \<Longrightarrow> [i..j] @ [j + 1..k] = [i..k]"
proof (cases "j = k")
  case True
  then show ?thesis by simp
next
  case False
  assume a: "i \<le> j + 1" "j \<le> k"
  with False have "j + 1 \<le> k" by simp
  from upto_split1 [OF a(1) this] show ?thesis by simp
qed

lemma line_word_ranges_partition:
  assumes "0 < n"
  shows "length (line_word_ranges n) = 4
       \<and> (\<forall>k<4. snd (line_word_ranges n ! k) - fst (line_word_ranges n ! k) + 1
                  = n div 4 + (if int k < n mod 4 then 1 else 0))
       \<and> concat (map (\<lambda>(s, e). [s..e]) (line_word_ranges n)) = [0..n - 1]"
proof -
  define b where "b = n div 4"
  define r where "r = n mod 4"
  define s where "s = (\<lambda>k::int. b + (if k < r then 1 else 0))"
  have r: "0 \<le> r" "r < 4" by (simp_all add: r_def)
  have n: "n = 4 * b + r" by (simp add: b_def r_def)
  have b: "0 \<le> b" using assms by (simp add: b_def)
  have s: "0 \<le> s k" for k using b by (simp add: s_def)
  have total: "s 0 + s 1 + s 2 + s 3 = n" using r n by (auto simp: s_def)
  have rs: "line_word_ranges n =
      [(0, s 0 - 1), (s 0, s 0 + s 1 - 1), (s 0 + s 1, s 0 + s 1 + s 2 - 1),
       (s 0 + s 1 + s 2, s 0 + s 1 + s 2 + s 3 - 1)]"
    using line_word_ranges_explicit [OF assms] by (simp add: Let_def s_def b_def r_def)
  have len: "length (line_word_ranges n) = 4" by (simp add: rs)
  have sizes: "snd (line_word_ranges n ! k) - fst (line_word_ranges n ! k) + 1 = s (int k)"
    if "k < 4" for k
  proof -
    from that consider "k = 0" | "k = 1" | "k = 2" | "k = 3" by arith
    then show ?thesis by cases (simp_all add: rs)
  qed
  have "concat (map (\<lambda>(s, e). [s..e]) (line_word_ranges n)) =
          (([0..s 0 - 1] @ [s 0 - 1 + 1..s 0 + s 1 - 1]) @ [s 0 + s 1 - 1 + 1..s 0 + s 1 + s 2 - 1])
            @ [s 0 + s 1 + s 2 - 1 + 1..s 0 + s 1 + s 2 + s 3 - 1]"
    by (simp add: rs)
  also have "\<dots> = [0..s 0 + s 1 + s 2 + s 3 - 1]"
    using s [of 0] s [of 1] s [of 2] s [of 3] by (simp only: upto_glue)
  finally have cover: "concat (map (\<lambda>(s, e). [s..e]) (line_word_ranges n)) = [0..n - 1]"
    by (simp add: total)
  show ?thesis using len sizes cover by (simp add: s_def b_def r_def)
qed

lemma pad_target_lines_eq: "pad_target_lines ls = ls @ replicate (4 - length ls) ''''"
proof (induction ls rule: pad_target_lines.induct)
  case (1 ls)
  show ?case
  proof (cases "length ls < 4")
    case True
    then have "4 - length ls = Suc (4 - length (ls @ ['''']))" by simp
    with 1 True show ?thesis
      by (subst pad_target_lines.simps) (simp add: replicate_app_Cons_same)
  next
    case False
    then show ?thesis by (subst pad_target_lines.simps) simp
  qed
qed

lemma ensure_four_lines_length: "length (snd (ensure_four_lines h r)) = 4"
  by (auto simp: ensure_four_lines_def pad_target_lines_eq Let_def)

lemma create_line_chunks_from_json_nonempty:
  assumes "wt \<noteq> []"
  shows "snd (create_line_chunks_from_json h al wt r od) =
           chunk_loop wt (snd (ensure_four_lines h r)) al od
             (enumerate 0 (line_word_ranges (int (length wt))))"
    and "fst (create_line_chunks_from_json h al wt r od) = fst (ensure_four_lines h r)"
  using assms by (simp_all add: create_line_chunks_from_json_def Let_def split: prod.splits)

text \<open>
  C1. For a non-empty word list of \<open>n\<close> words, the four index ranges have sizes
  \<open>n div 4 + 1\<close> for the first \<open>n mod 4\<close> lines and \<open>n div 4\<close> for the others; read in
  order they enumerate \<open>0, \<dots>, n - 1\<close>, so they are contiguous, disjoint and cover every
  index once. The chunks the function returns carry these sizes as \<^verbatim>\<open>word_count\<close>
  (ranges of size 0 produce no chunk). 18 words give the ranges 0-4, 5-9, 10-13, 14-17.
\<close>

theorem chunker_partition:
  assumes "wt \<noteq> []"
  shows "length (line_word_ranges (int (length wt))) = 4
       \<and> (\<forall>k<4. snd (line_word_ranges (int (length wt)) ! k)
                   - fst (line_word_ranges (int (length wt)) ! k) + 1
                  = int (length wt) div 4 + (if int k < int (length wt) mod 4 then 1 else 0))
       \<and> concat (map (\<lambda>(s, e). [s..e]) (line_word_ranges (int (length wt))))
           = [0..int (length wt) - 1]
       \<and> (\<exists>cs. snd (create_line_chunks_from_json h al wt r od) = Some cs
             \<and> int (length cs) = min 4 (int (length wt))
             \<and> (\<forall>k<length cs. word_count (fst (cs ! k))
                    = int (length wt) div 4 + (if int k < int (length wt) mod 4 then 1 else 0)))
       \<and> line_word_ranges 18 = [(0, 4), (5, 9), (10, 13), (14, 17)]"
proof -
  define n where "n = int (length wt)"
  have pos: "0 < n" using assms by (simp add: n_def)
  note part = line_word_ranges_partition [OF pos]
  obtain cs where cs: "snd (create_line_chunks_from_json h al wt r od) = Some cs"
    "int (length cs) = min 4 n"
    "\<forall>k<length cs. 0 \<le> fst (line_word_ranges n ! k)
        \<and> fst (line_word_ranges n ! k) \<le> snd (line_word_ranges n ! k)
        \<and> snd (line_word_ranges n ! k) < n
        \<and> make_chunk wt (snd (ensure_four_lines h r)) al od k (fst (line_word_ranges n ! k))
             (snd (line_word_ranges n ! k)) = Some (cs ! k)"
    using chunk_loop_line_ranges [OF assms ensure_four_lines_length, of h r al od]
    unfolding create_line_chunks_from_json_nonempty(1) [OF assms] n_def by blast
  have wc: "word_count (fst (cs ! k)) = n div 4 + (if int k < n mod 4 then 1 else 0)"
    if k: "k < length cs" for k
  proof -
    from k cs(2) have k4: "k < 4" by simp
    from cs(3) k have v: "0 \<le> fst (line_word_ranges n ! k)"
      "fst (line_word_ranges n ! k) \<le> snd (line_word_ranges n ! k)"
      "snd (line_word_ranges n ! k) < int (length wt)"
      and m: "make_chunk wt (snd (ensure_four_lines h r)) al od k (fst (line_word_ranges n ! k))
             (snd (line_word_ranges n ! k)) = Some (cs ! k)"
      by (simp_all add: n_def)
    have "k < length (snd (ensure_four_lines h r))" using k4 by (simp add: ensure_four_lines_length)
    from make_chunk_in_range [OF v this, of al od] m
    have "word_count (fst (cs ! k)) = snd (line_word_ranges n ! k) - fst (line_word_ranges n ! k) + 1"
      by simp
    with part k4 show ?thesis by simp
  qed
  have "line_word_ranges 18 = [(0, 4), (5, 9), (10, 13), (14, 17)]"
    by (simp add: line_word_ranges_def range_step_def)
  with part cs(1,2) wc show ?thesis unfolding n_def by blast
qed

theorem chunker_partition_witness:
  "sample_words 18 \<noteq> []
   \<and> line_word_ranges (int (length (sample_words 18))) = [(0, 4), (5, 9), (10, 13), (14, 17)]
   \<and> (\<exists>cs. snd (create_line_chunks_from_json sample_heap 18000 (sample_words 18) 0 ''chunks'')
               = Some cs
          \<and> map (\<lambda>c. word_count (fst c)) cs = [5, 5, 4, 4])"
proof -
  have ne: "sample_words 18 \<noteq> []" by (simp add: sample_words_def upt_rec)
  have len: "int (length (sample_words 18)) = 18" by (simp add: sample_words_def)
  from chunker_partition [OF ne, of sample_heap 18000 0 "''chunks''"]
  have r: "line_word_ranges 18 = [(0, 4), (5, 9), (10, 13), (14, 17)]"
    and e: "\<exists>cs. snd (create_line_chunks_from_json sample_heap 18000 (sample_words 18) 0 ''chunks'')
               = Some cs
          \<and> int (length cs) = min 4 18
          \<and> (\<forall>k<length cs. word_count (fst (cs ! k)) = 18 div 4 + (if int k < 18 mod 4 then 1 else 0))"
    unfolding len by blast+
  from e obtain cs where cs:
    "snd (create_line_chunks_from_json sample_heap 18000 (sample_words 18) 0 ''chunks'') = Some cs"
    "length cs = 4"
    "\<forall>k<4. word_count (fst (cs ! k)) = 4 + (if k < 2 then 1 else 0)"
    by auto
  from cs(2) obtain a b c d where "cs = [a, b, c, d]"
    by (auto simp: length_Suc_conv numeral_eq_Suc)
  with cs(3) have "map (\<lambda>c. word_count (fst c)) cs = [5, 5, 4, 4]"
    by (simp add: all_less_4)
  with ne r cs(1) show ?thesis unfolding len by (intro conjI exI [of _ cs])
qed

subsection \<open>Zero averages\<close>

lemma collect_values_zero_as_null:
  "collect_values avg_pitch_hz (map zero_as_null ws) = collect_values avg_pitch_hz ws"
  "collect_values avg_energy_db (map zero_as_null ws) = collect_values avg_energy_db ws"
  by (induction ws)
     (auto simp: collect_values_def zero_as_null_def present_and_truthy_def split: field.splits)

lemma py_get_map: "py_get (map f xs) i = map_option f (py_get xs i)"
  by (simp add: py_get_def Let_def)

lemma those_map_option:
  "those (map (\<lambda>x. map_option f (g x)) xs) = map_option (map f) (those (map g xs))"
proof (induction xs)
  case Nil
  show ?case by simp
next
  case (Cons x xs)
  show ?case
    by (cases "g x"; cases "those (map g xs)") (simp_all add: Cons)
qed

lemma time_relative_zero_as_null: "time_relative (zero_as_null w) = time_relative w"
  by (simp add: zero_as_null_def)

lemma make_chunk_zero_as_null:
  "make_chunk (map zero_as_null wt) lines al od k s e = make_chunk wt lines al od k s e"
  unfolding make_chunk_def py_get_map those_map_option
  by (cases "py_get wt s"; cases "py_get wt e"; cases "those (map (py_get wt) [s..e])")
     (simp_all add: time_relative_zero_as_null collect_values_zero_as_null Let_def)

lemma chunk_loop_zero_as_null:
  "chunk_loop (map zero_as_null wt) lines al od rs = chunk_loop wt lines al od rs"
proof (induction rs)
  case Nil
  show ?case by simp
next
  case (Cons x rs)
  obtain k s e where x: "x = (k, s, e)" by (cases x)
  show ?case by (simp add: x Cons make_chunk_zero_as_null)
qed

lemma create_line_chunks_from_json_zero_as_null:
  "create_line_chunks_from_json h al (map zero_as_null wt) r od
     = create_line_chunks_from_json h al wt r od"
  by (simp add: create_line_chunks_from_json_def chunk_loop_zero_as_null)

subsection \<open>Padding of the target lines\<close>

lemma create_line_chunks_from_json_heap:
  "fst (create_line_chunks_from_json h al wt r od) =
     (if wt \<noteq> [] \<and> length (h r) < 4 then h(r := h r @ replicate (4 - length (h r)) '''') else h)"
  by (auto simp: create_line_chunks_from_json_def ensure_four_lines_def pad_target_lines_eq Let_def
           split: prod.splits)

lemma make_line_chunk_in_range:
  assumes "0 \<le> s" "s \<le> e" "e < int (length wt)" "k < 4"
  shows "make_line_chunk wt al od k s e =
           Some (\<lparr> lc_line_number = int k + 1,
                   lc_chunk_path = od @ ''/chunk_line_'' @ str_nat (k + 1) @ ''.wav'',
                   spanish_text = spanish_lines ! k,
                   lc_duration = (min (real_of_int al) (tf_end (time_relative (wt ! nat e)) * 1000 + 100)
                                - max 0 (tf_start (time_relative (wt ! nat s)) * 1000 - 100)) / 1000,
                   lc_time_range = (tf_start (time_relative (wt ! nat s)), tf_end (time_relative (wt ! nat e))) \<rparr>,
                 max 0 (tf_start (time_relative (wt ! nat s)) * 1000 - 100),
                 min (real_of_int al) (tf_end (time_relative (wt ! nat e)) * 1000 + 100))"
proof -
  have 1: "py_get wt s = Some (wt ! nat s)" using assms by (simp add: py_get_in_range)
  have 2: "py_get wt e = Some (wt ! nat e)" using assms by (simp add: py_get_in_range)
  have "length spanish_lines = 4" by (simp add: spanish_lines_def)
  then have 3: "py_get spanish_lines (int k) = Some (spanish_lines ! k)"
    using assms by (simp add: py_get_in_range)
  show ?thesis
    unfolding make_line_chunk_def
    by (simp add: 1 2 3 line_words_in_range [OF assms(1,3)] Let_def)
qed

lemma make_line_chunk_out_of_range:
  assumes "int (length wt) \<le> e"
  shows "make_line_chunk wt al od k s e = None"
proof -
  have "py_get wt e = None" using assms by (simp add: py_get_def Let_def)
  then show ?thesis
    unfolding make_line_chunk_def by (cases "py_get wt s") simp_all
qed

lemma create_line_chunks_long:
  assumes "18 \<le> length wt"
  shows "\<exists>cs. create_line_chunks al wt od = Some cs \<and> length cs = 4
           \<and> (\<forall>k<4. \<exists>s e. fixed_line_word_ranges ! k = (s, e)
                 \<and> 0 \<le> s \<and> s \<le> e \<and> e < int (length wt)
                 \<and> lc_time_range (fst (cs ! k))
                     = (tf_start (time_relative (wt ! nat s)), tf_end (time_relative (wt ! nat e)))
                 \<and> snd (cs ! k)
                     = (max 0 (tf_start (time_relative (wt ! nat s)) * 1000 - 100),
                        min (real_of_int al) (tf_end (time_relative (wt ! nat e)) * 1000 + 100)))"
proof -
  have n: "17 < int (length wt)" using assms by simp
  have m0: "\<exists>x. make_line_chunk wt al od 0 0 4 = Some x"
    using n by (simp add: make_line_chunk_in_range)
  show ?thesis
    using n
    by (simp add: create_line_chunks_def fixed_line_word_ranges_def enumerate_eq_zip
          make_line_chunk_in_range all_less_4 upt_rec numeral_2_eq_2 numeral_3_eq_3)
qed

lemma create_line_chunks_short:
  assumes "length wt < 18"
  shows "create_line_chunks al wt od = None"
proof -
  have "make_line_chunk wt al od 3 14 17 = None"
    using assms by (simp add: make_line_chunk_out_of_range)
  then show ?thesis
    by (cases "make_line_chunk wt al od 0 0 4"; cases "make_line_chunk wt al od (Suc 0) 5 9";
        cases "make_line_chunk wt al od 2 10 13")
       (simp_all add: create_line_chunks_def fixed_line_word_ranges_def enumerate_eq_zip upt_rec
          numeral_2_eq_2 numeral_3_eq_3)
qed

lemma create_line_chunks_from_json_bounds:
  assumes "wt \<noteq> []"
  shows "\<exists>cs. snd (create_line_chunks_from_json h al wt r od) = Some cs \<and> cs \<noteq> []
          \<and> (\<forall>k<length cs. \<exists>s e. line_word_ranges (int (length wt)) ! k = (s, e)
                 \<and> 0 \<le> s \<and> s \<le> e \<and> e < int (length wt)
                 \<and> time_range (fst (cs ! k))
                     = (tf_start (time_relative (wt ! nat s)), tf_end (time_relative (wt ! nat e)))
                 \<and> snd (cs ! k)
                     = (max 0 (tf_start (time_relative (wt ! nat s)) * 1000 - 50),
                        min (real_of_int al) (tf_end (time_relative (wt ! nat e)) * 1000 + 50)))"
proof -
  define n where "n = int (length wt)"
  have pos: "0 < n" using assms by (simp add: n_def)
  obtain cs where cs: "snd (create_line_chunks_from_json h al wt r od) = Some cs"
    "int (length cs) = min 4 n"
    "\<forall>k<length cs. 0 \<le> fst (line_word_ranges n ! k)
        \<and> fst (line_word_ranges n ! k) \<le> snd (line_word_ranges n ! k)
        \<and> snd (line_word_ranges n ! k) < n
        \<and> make_chunk wt (snd (ensure_four_lines h r)) al od k (fst (line_word_ranges n ! k))
             (snd (line_word_ranges n ! k)) = Some (cs ! k)"
    using chunk_loop_line_ranges [OF assms ensure_four_lines_length, of h r al od]
    unfolding create_line_chunks_from_json_nonempty(1) [OF assms] n_def by blast
  have ne: "cs \<noteq> []" using cs(2) pos by auto
  have "\<exists>s e. line_word_ranges n ! k = (s, e)
                 \<and> 0 \<le> s \<and> s \<le> e \<and> e < n
                 \<and> time_range (fst (cs ! k))
                     = (tf_start (time_relative (wt ! nat s)), tf_end (time_relative (wt ! nat e)))
                 \<and> snd (cs ! k)
                     = (max 0 (tf_start (time_relative (wt ! nat s)) * 1000 - 50),
                        min (real_of_int al) (tf_end (time_relative (wt ! nat e)) * 1000 + 50))"
    if k: "k < length cs" for k
  proof -
    obtain s e where se: "line_word_ranges n ! k = (s, e)" by (cases "line_word_ranges n ! k")
    from k cs(2) have k4: "k < 4" by simp
    from cs(3) k se have v: "0 \<le> s" "s \<le> e" "e < int (length wt)"
      and m: "make_chunk wt (snd (ensure_four_lines h r)) al od k s e = Some (cs ! k)"
      by (auto simp: n_def)
    have "k < length (snd (ensure_four_lines h r))" using k4 by (simp add: ensure_four_lines_length)
    from make_chunk_in_range [OF v this, of al od] m se v show ?thesis
      by (auto simp: n_def)
  qed
  with cs(1) ne show ?thesis unfolding n_def by blast
qed

subsection \<open>Chunk bounds\<close>

text \<open>
  C6. Every chunk of \<^verbatim>\<open>create_line_chunks_from_json\<close> and of \<^verbatim>\<open>create_line_chunks\<close> takes
  its start from the \<^verbatim>\<open>time_relative\<close> start of the first word of its index range and its
  end from the \<^verbatim>\<open>time_relative\<close> end of the last word, read from the word list. The
  exported slice runs from \<open>max 0 (start - pad)\<close> to \<open>min (len audio) (end + pad)\<close> in
  milliseconds, with the same pad on both sides: 50 ms in the first function, 100 ms in
  the second. An empty word list gives no chunk in the first function, fewer than 18
  words give none in the second (IndexError).
\<close>

theorem chunk_bounds_from_words:
  "(wt \<noteq> [] \<longrightarrow>
      (\<exists>cs. snd (create_line_chunks_from_json h al wt r od) = Some cs \<and> cs \<noteq> []
          \<and> (\<forall>k<length cs. \<exists>s e. line_word_ranges (int (length wt)) ! k = (s, e)
                 \<and> 0 \<le> s \<and> s \<le> e \<and> e < int (length wt)
                 \<and> time_range (fst (cs ! k))
                     = (tf_start (time_relative (wt ! nat s)), tf_end (time_relative (wt ! nat e)))
                 \<and> snd (cs ! k)
                     = (max 0 (tf_start (time_relative (wt ! nat s)) * 1000 - 50),
                        min (real_of_int al) (tf_end (time_relative (wt ! nat e)) * 1000 + 50)))))
   \<and> (wt = [] \<longrightarrow> snd (create_line_chunks_from_json h al wt r od) = Some [])
   \<and> (18 \<le> length wt \<longrightarrow>
      (\<exists>cs. create_line_chunks al wt od = Some cs \<and> length cs = 4
           \<and> (\<forall>k<4. \<exists>s e. fixed_line_word_ranges ! k = (s, e)
                 \<and> 0 \<le> s \<and> s \<le> e \<and> e < int (length wt)
                 \<and> lc_time_range (fst (cs ! k))
                     = (tf_start (time_relative (wt ! nat s)), tf_end (time_relative (wt ! nat e)))
                 \<and> snd (cs ! k)
                     = (max 0 (tf_start (time_relative (wt ! nat s)) * 1000 - 100),
                        min (real_of_int al) (tf_end (time_relative (wt ! nat e)) * 1000 + 100)))))
   \<and> (length wt < 18 \<longrightarrow> create_line_chunks al wt od = None)"
proof -
  have "wt = [] \<longrightarrow> snd (create_line_chunks_from_json h al wt r od) = Some []"
    by (simp add: create_line_chunks_from_json_def)
  then show ?thesis
    using create_line_chunks_from_json_bounds [of wt h al r od]
      create_line_chunks_long [of wt al od] create_line_chunks_short [of wt al od]
    by blast
qed

theorem chunk_bounds_from_words_witness:
  "sample_words 18 \<noteq> [] \<and> 18 \<le> length (sample_words 18)
   \<and> (\<exists>cs. snd (create_line_chunks_from_json sample_heap 18000 (sample_words 18) 0 ''chunks'')
              = Some cs
         \<and> time_range (fst (cs ! 0)) = (0, 9 / 2) \<and> snd (cs ! 0) = (0, 4550))
   \<and> (\<exists>cs. create_line_chunks 18000 (sample_words 18) ''chunks'' = Some cs
         \<and> lc_time_range (fst (cs ! 3)) = (14, 35 / 2) \<and> snd (cs ! 3) = (13900, 17600))"
proof -
  have ne: "sample_words 18 \<noteq> []" by (simp add: sample_words_def upt_rec)
  have len: "length (sample_words 18) = 18" by (simp add: sample_words_def)
  have w: "sample_words 18 ! k = sample_word k" if "k < 18" for k
    using that by (simp add: sample_words_def)
  have r: "line_word_ranges 18 = [(0, 4), (5, 9), (10, 13), (14, 17)]"
    by (simp add: line_word_ranges_def range_step_def)
  note inst = chunk_bounds_from_words [of "sample_words 18" sample_heap 18000 0 "''chunks''"]
  from inst ne obtain cs where cs:
    "snd (create_line_chunks_from_json sample_heap 18000 (sample_words 18) 0 ''chunks'') = Some cs"
    "cs \<noteq> []"
    "\<forall>k<length cs. \<exists>s e. line_word_ranges (int (length (sample_words 18))) ! k = (s, e)
                 \<and> 0 \<le> s \<and> s \<le> e \<and> e < int (length (sample_words 18))
                 \<and> time_range (fst (cs ! k))
                     = (tf_start (time_relative (sample_words 18 ! nat s)),
                        tf_end (time_relative (sample_words 18 ! nat e)))
                 \<and> snd (cs ! k)
                     = (max 0 (tf_start (time_relative (sample_words 18 ! nat s)) * 1000 - 50),
                        min (real_of_int 18000)
                          (tf_end (time_relative (sample_words 18 ! nat e)) * 1000 + 50))"
    by blast
  from cs(2) have "0 < length cs" by simp
  with cs(3) have first: "time_range (fst (cs ! 0)) = (0, 9 / 2) \<and> snd (cs ! 0) = (0, 4550)"
    by (auto simp: len r w sample_word_def)
  from inst len obtain ds where ds:
    "create_line_chunks 18000 (sample_words 18) ''chunks'' = Some ds"
    "\<forall>k<4. \<exists>s e. fixed_line_word_ranges ! k = (s, e)
                 \<and> 0 \<le> s \<and> s \<le> e \<and> e < int (length (sample_words 18))
                 \<and> lc_time_range (fst (ds ! k))
                     = (tf_start (time_relative (sample_words 18 ! nat s)),
                        tf_end (time_relative (sample_words 18 ! nat e)))
                 \<and> snd (ds ! k)
                     = (max 0 (tf_start (time_relative (sample_words 18 ! nat s)) * 1000 - 100),
                        min (real_of_int 18000)
                          (tf_end (time_relative (sample_words 18 ! nat e)) * 1000 + 100))"
    by auto
  from ds(2) have last: "lc_time_range (fst (ds ! 3)) = (14, 35 / 2) \<and> snd (ds ! 3) = (13900, 17600)"
    by (auto simp: all_less_4 fixed_line_word_ranges_def len w sample_word_def)
  have "18 \<le> length (sample_words 18)" by (simp add: len)
  with ne cs(1) first ds(1) last show ?thesis by blast
qed

subsection \<open>Truthiness of the stored averages\<close>

text \<open>
  C9. The chunker keeps a word's \<^verbatim>\<open>avg_pitch_hz\<close> or \<^verbatim>\<open>avg_energy_db\<close> only if the stored
  value is truthy, so a stored 0.0 is left out exactly as a null is: replacing every 0.0
  by null changes nothing in the result. With five words whose first one has pitch 0.0
  and energy 0.0 dB, the first line (words 0 and 1) reports the second word's values,
  200 Hz and -10 dB, as its averages.
\<close>

theorem zero_average_as_missing:
  "create_line_chunks_from_json h al (map zero_as_null wt) r od
     = create_line_chunks_from_json h al wt r od
   \<and> map_option (map (\<lambda>c. (line_avg_pitch_hz (fst c), line_avg_energy_db (fst c), word_count (fst c))))
       (snd (create_line_chunks_from_json sample_heap 5000 loud_words 0 ''chunks''))
     = Some [(Some 200, Some (- 10), 2), (Some 210, Some (- 20), 1), (Some 220, Some (- 20), 1),
             (Some 230, Some (- 20), 1)]"
proof
  show "create_line_chunks_from_json h al (map zero_as_null wt) r od
          = create_line_chunks_from_json h al wt r od"
    by (rule create_line_chunks_from_json_zero_as_null)
next
  show "map_option (map (\<lambda>c. (line_avg_pitch_hz (fst c), line_avg_energy_db (fst c), word_count (fst c))))
       (snd (create_line_chunks_from_json sample_heap 5000 loud_words 0 ''chunks''))
     = Some [(Some 200, Some (- 10), 2), (Some 210, Some (- 20), 1), (Some 220, Some (- 20), 1),
             (Some 230, Some (- 20), 1)]"
    by (simp add: create_line_chunks_from_json_def loud_words_def line_word_ranges_def range_step_def
          ensure_four_lines_def sample_heap_def enumerate_eq_zip make_chunk_def py_get_def
          collect_values_def line_average_def present_and_truthy_def measured_word_def sample_word_def
          upto_rec1 Let_def)
qed

subsection \<open>Padding of the caller's list\<close>

text \<open>
  C10, as stated, at an empty word list: the function returns before it looks at the
  target lines, and the caller's one-entry list still has one entry after the call.
\<close>

theorem padding_skipped_counterexample:
  "length (sample_heap 7) < 4
   \<and> fst (create_line_chunks_from_json sample_heap 18000 [] 7 ''chunks'') 7 = [''uno'']"
  by (simp add: create_line_chunks_from_json_def sample_heap_def)

text \<open>
  C10, amended. When the word list is not empty and the caller's list has fewer than 4
  entries, the call appends empty strings to that list object until it has 4: the heap
  after the call holds the padded list at the caller's reference and is unchanged
  elsewhere. In every other case (4 entries, more than 4, or an empty word list) the heap
  is unchanged: truncation takes a slice into a fresh local list. Line \<open>k\<close> of the result
  carries entry \<open>k\<close> of the padded list as its target text.
\<close>

theorem target_lines_heap_effect:
  "fst (create_line_chunks_from_json h al wt r od) =
     (if wt \<noteq> [] \<and> length (h r) < 4 then h(r := h r @ replicate (4 - length (h r)) '''') else h)
   \<and> (wt \<noteq> [] \<longrightarrow>
        (\<exists>cs. snd (create_line_chunks_from_json h al wt r od) = Some cs
           \<and> (\<forall>k<length cs.
                 target_text (fst (cs ! k)) = (h r @ replicate (4 - length (h r)) '''') ! k)))"
proof
  show "fst (create_line_chunks_from_json h al wt r od) =
     (if wt \<noteq> [] \<and> length (h r) < 4 then h(r := h r @ replicate (4 - length (h r)) '''') else h)"
    by (rule create_line_chunks_from_json_heap)
next
  show "wt \<noteq> [] \<longrightarrow>
        (\<exists>cs. snd (create_line_chunks_from_json h al wt r od) = Some cs
           \<and> (\<forall>k<length cs.
                 target_text (fst (cs ! k)) = (h r @ replicate (4 - length (h r)) '''') ! k))"
  proof
    assume ne: "wt \<noteq> []"
    define n where "n = int (length wt)"
    define lines where "lines = snd (ensure_four_lines h r)"
    have lines4: "length lines = 4" by (simp add: lines_def ensure_four_lines_length)
    have lines: "lines ! k = (h r @ replicate (4 - length (h r)) '''') ! k" if "k < 4" for k
      using that
      by (auto simp: lines_def ensure_four_lines_def pad_target_lines_eq Let_def nth_append)
    obtain cs where cs: "snd (create_line_chunks_from_json h al wt r od) = Some cs"
      "int (length cs) = min 4 n"
      "\<forall>k<length cs. 0 \<le> fst (line_word_ranges n ! k)
          \<and> fst (line_word_ranges n ! k) \<le> snd (line_word_ranges n ! k)
          \<and> snd (line_word_ranges n ! k) < n
          \<and> make_chunk wt lines al od k (fst (line_word_ranges n ! k))
               (snd (line_word_ranges n ! k)) = Some (cs ! k)"
      using chunk_loop_line_ranges [OF ne lines4, of al od]
      unfolding create_line_chunks_from_json_nonempty(1) [OF ne] n_def lines_def by blast
    have "target_text (fst (cs ! k)) = (h r @ replicate (4 - length (h r)) '''') ! k"
      if k: "k < length cs" for k
    proof -
      from k cs(2) have k4: "k < 4" by simp
      from cs(3) k have v: "0 \<le> fst (line_word_ranges n ! k)"
        "fst (line_word_ranges n ! k) \<le> snd (line_word_ranges n ! k)"
        "snd (line_word_ranges n ! k) < int (length wt)"
        and m: "make_chunk wt lines al od k (fst (line_word_ranges n ! k))
               (snd (line_word_ranges n ! k)) = Some (cs ! k)"
        by (simp_all add: n_def)
      have "k < length lines" using k4 lines4 by simp
      from make_chunk_in_range [OF v this, of al od] m
      have "target_text (fst (cs ! k)) = lines ! k" by simp
      with lines [OF k4] show ?thesis by simp
    qed
    with cs(1) show "\<exists>cs. snd (create_line_chunks_from_json h al wt r od) = Some cs
           \<and> (\<forall>k<length cs.
                 target_text (fst (cs ! k)) = (h r @ replicate (4 - length (h r)) '''') ! k)"
      by blast
  qed
qed

theorem target_lines_heap_effect_witness:
  "sample_words 18 \<noteq> [] \<and> sample_heap 7 = [''uno'']
   \<and> fst (create_line_chunks_from_json sample_heap 18000 (sample_words 18) 7 ''chunks'') 7
       = [''uno'', '''', '''', '''']
   \<and> fst (create_line_chunks_from_json sample_heap 18000 (sample_words 18) 7 ''chunks'') 0
       = sample_heap 0
   \<and> (\<exists>cs. snd (create_line_chunks_from_json sample_heap 18000 (sample_words 18) 7 ''chunks'')
              = Some cs)"
proof -
  have ne: "sample_words 18 \<noteq> []" by (simp add: sample_words_def upt_rec)
  have h1: "sample_heap 7 = [''uno'']" by (simp add: sample_heap_def)
  have h1': "sample_heap 7 = [''uno'']" by (simp add: sample_heap_def)
  have three: "replicate 3 '''' = ['''', '''', '''']" by (simp add: numeral_3_eq_3)
  from target_lines_heap_effect [of sample_heap 18000 "sample_words 18" 7 "''chunks''"] ne
  have eq: "fst (create_line_chunks_from_json sample_heap 18000 (sample_words 18) 7 ''chunks'')
              = sample_heap(7 := [''uno'', '''', '''', ''''])"
    and ex: "\<exists>cs. snd (create_line_chunks_from_json sample_heap 18000 (sample_words 18) 7 ''chunks'')
              = Some cs"
    by (auto simp: h1' three)
  have v1: "fst (create_line_chunks_from_json sample_heap 18000 (sample_words 18) 7 ''chunks'') 7
       = [''uno'', '''', '''', '''']"
    by (simp add: eq)
  have v0: "fst (create_line_chunks_from_json sample_heap 18000 (sample_words 18) 7 ''chunks'') 0
       = sample_heap 0"
    by (simp add: eq)
  from ne h1 v1 v0 ex show ?thesis by blast
qed

section \<open>Properties of the enrichment\<close>

lemma those_eq_Some:
  "those (map f xs) = Some ys \<Longrightarrow> length ys = length xs \<and> (\<forall>i<length xs. f (xs ! i) = Some (ys ! i))"
proof (induction xs arbitrary: ys)
  case Nil
  then show ?case by simp
next
  case (Cons x xs)
  from Cons.prems obtain y ys' where y: "f x = Some y" "those (map f xs) = Some ys'" "ys = y # ys'"
    by (auto split: option.splits)
  from Cons.IH [OF y(2)] y show ?case
    by (auto simp: nth_Cons split: nat.splits)
qed

lemma those_total:
  "(\<And>x. x \<in> set xs \<Longrightarrow> \<exists>y. f x = Some y) \<Longrightarrow> \<exists>ys. those (map f xs) = Some ys"
proof (induction xs)
  case Nil
  show ?case by simp
next
  case (Cons x xs)
  then obtain y ys where "f x = Some y" "those (map f xs) = Some ys" by (meson list.set_intros)
  then show ?case by simp
qed

lemma np_select_mask:
  "length rd = length rt \<Longrightarrow>
     np_select rd (energy_mask rt lo hi) = Some (closed_span_values (zip rt rd) lo hi)"
  unfolding np_select_def energy_mask_def closed_span_values_def
  by (induction rd rt rule: list_induct2) auto

lemma np_any_mask_iff: "np_any (energy_mask rt lo hi) \<longleftrightarrow> (\<exists>t\<in>set rt. lo \<le> t \<and> t \<le> hi)"
  by (auto simp: np_any_def energy_mask_def list_ex_iff)

lemma closed_span_zip_nonempty:
  "length rd = length rt \<Longrightarrow>
     closed_span_values (zip rt rd) lo hi \<noteq> [] \<longleftrightarrow> (\<exists>t\<in>set rt. lo \<le> t \<and> t \<le> hi)"
  unfolding closed_span_values_def
  by (induction rd rt rule: list_induct2) auto

lemma closed_span_zip_empty:
  "\<not> (\<exists>t\<in>set rt. lo \<le> t \<and> t \<le> hi) \<Longrightarrow> closed_span_values (zip rt rd) lo hi = []"
  by (auto simp: closed_span_values_def dest: set_zip_leftD)

lemma word_pitches_in_eq: "word_pitches_in pc lo hi = closed_span_values pc lo hi"
  unfolding word_pitches_in_def closed_span_values_def
  by (induction pc) auto

lemma np_min_Min: "vs \<noteq> [] \<Longrightarrow> np_min vs = Min (set vs)"
  by (cases vs) (simp_all add: np_min_def Min.set_eq_fold [symmetric])

lemma np_max_Max: "vs \<noteq> [] \<Longrightarrow> np_max vs = Max (set vs)"
  by (cases vs) (simp_all add: np_max_def Max.set_eq_fold [symmetric])


lemma energy_selection_cases:
  assumes "(if np_any (energy_mask rt lo hi)
            then do { selected \<leftarrow> np_select rd (energy_mask rt lo hi); Some (f selected) }
            else Some g) = Some r"
  shows "(closed_span_values (zip rt rd) lo hi \<noteq> [] \<and> r = f (closed_span_values (zip rt rd) lo hi))
       \<or> (closed_span_values (zip rt rd) lo hi = [] \<and> r = g)"
proof (cases "np_any (energy_mask rt lo hi)")
  case True
  with assms obtain selected where sel: "np_select rd (energy_mask rt lo hi) = Some selected"
    "r = f selected"
    by (auto split: bind_splits)
  from sel(1) have len: "length rd = length rt"
    by (auto simp: np_select_def energy_mask_def split: if_splits)
  from sel(1) have "selected = closed_span_values (zip rt rd) lo hi"
    by (simp add: np_select_mask [OF len])
  moreover have "closed_span_values (zip rt rd) lo hi \<noteq> []"
    using True by (simp add: closed_span_zip_nonempty [OF len] np_any_mask_iff)
  ultimately show ?thesis using sel(2) by simp
next
  case False
  then have "closed_span_values (zip rt rd) lo hi = []"
    by (simp add: np_any_mask_iff closed_span_zip_empty)
  with False assms show ?thesis by simp
qed

lemma enrich_word_fields:
  assumes "enrich_word to_note pc rt rd w = Some w'"
  shows "(closed_span_values pc (wi_start w) (wi_end w) \<noteq> [] \<longrightarrow>
            wi_avg_pitch_hz w' = Num (sum_list (closed_span_values pc (wi_start w) (wi_end w))
                                       / real (length (closed_span_values pc (wi_start w) (wi_end w))))
          \<and> min_pitch_hz w' = Num (Min (set (closed_span_values pc (wi_start w) (wi_end w))))
          \<and> max_pitch_hz w' = Num (Max (set (closed_span_values pc (wi_start w) (wi_end w)))))
       \<and> (closed_span_values pc (wi_start w) (wi_end w) = [] \<longrightarrow>
            wi_avg_pitch_hz w' = Null \<and> min_pitch_hz w' = Null \<and> max_pitch_hz w' = Null)
       \<and> (closed_span_values (zip rt rd) (wi_start w) (wi_end w) \<noteq> [] \<longrightarrow>
            wi_avg_energy_db w' = Num (sum_list (closed_span_values (zip rt rd) (wi_start w) (wi_end w))
                                       / real (length (closed_span_values (zip rt rd) (wi_start w) (wi_end w))))
          \<and> max_energy_db w' = Num (Max (set (closed_span_values (zip rt rd) (wi_start w) (wi_end w)))))
       \<and> (closed_span_values (zip rt rd) (wi_start w) (wi_end w) = [] \<longrightarrow>
            wi_avg_energy_db w' = Null \<and> max_energy_db w' = Null)
       \<and> wi_start w' = wi_start w \<and> wi_end w' = wi_end w"
proof -
  note c = energy_selection_cases [OF assms [unfolded enrich_word_def Let_def]]
  then show ?thesis
    by (auto simp: word_pitches_in_eq np_mean_def np_min_Min np_max_Max)
qed

lemma enrich_word_total:
  assumes "length rd = length rt"
  shows "\<exists>w'. enrich_word to_note pc rt rd w = Some w'"
  by (simp add: enrich_word_def Let_def np_select_mask [OF assms])


lemma dual_frame_word_fields:
  assumes "dual_frame_word st pc rt rd i w = Some w'"
  shows "time_relative w' = \<lparr> tf_start = ww_start w, tf_end = ww_end w,
                               tf_duration = ww_end w - ww_start w \<rparr>
       \<and> time_absolute w' = \<lparr> tf_start = st + ww_start w, tf_end = st + ww_end w,
                               tf_duration = (st + ww_end w) - (st + ww_start w) \<rparr>
       \<and> index w' = int i
       \<and> avg_pitch_hz w' =
           (if closed_span_values pc (ww_start w) (ww_end w) = [] then Absent
            else Num (sum_list (closed_span_values pc (ww_start w) (ww_end w))
                       / real (length (closed_span_values pc (ww_start w) (ww_end w)))))
       \<and> avg_energy_db w' =
           (if closed_span_values (zip rt rd) (ww_start w) (ww_end w) = [] then Absent
            else Num (sum_list (closed_span_values (zip rt rd) (ww_start w) (ww_end w))
                       / real (length (closed_span_values (zip rt rd) (ww_start w) (ww_end w)))))"
proof -
  note c = energy_selection_cases [OF assms [unfolded dual_frame_word_def Let_def]]
  then show ?thesis
    by (auto simp: word_pitches_in_eq np_mean_def)
qed

lemma dual_frame_word_total:
  assumes "length rd = length rt"
  shows "\<exists>w'. dual_frame_word st pc rt rd i w = Some w'"
  by (simp add: dual_frame_word_def Let_def np_select_mask [OF assms])

lemma those_enumerate_eq_Some:
  assumes "those (map (\<lambda>(i, x). f i x) (enumerate 0 xs)) = Some ys"
  shows "length ys = length xs \<and> (\<forall>i<length xs. f i (xs ! i) = Some (ys ! i))"
proof -
  from those_eq_Some [OF assms]
  have len: "length ys = length xs"
    and all: "\<forall>i<length (enumerate 0 xs). (case enumerate 0 xs ! i of (i, x) \<Rightarrow> f i x) = Some (ys ! i)"
    by simp_all
  have "f i (xs ! i) = Some (ys ! i)" if "i < length xs" for i
    using all that by (auto simp: nth_enumerate_eq)
  with len show ?thesis by blast
qed

lemma word_timings_dual_total:
  assumes "length rd = length rt"
  shows "\<exists>ws. word_timings_dual st pc rt rd tws = Some ws"
proof (cases tws)
  case None
  then show ?thesis by (simp add: word_timings_dual_def)
next
  case (Some xs)
  have "\<exists>ys. those (map (\<lambda>(i, w). dual_frame_word st pc rt rd i w) (enumerate 0 xs)) = Some ys"
    by (rule those_total) (auto simp: dual_frame_word_total [OF assms])
  with Some show ?thesis by (simp add: word_timings_dual_def)
qed

subsection \<open>Closed-interval aggregation\<close>

lemma closed_span_values_set:
  "set (closed_span_values samples lo hi) = {v. \<exists>t. (t, v) \<in> set samples \<and> lo \<le> t \<and> t \<le> hi}"
  by (auto simp: closed_span_values_def split: if_splits)

lemma enrich_word_timings_fields:
  assumes "enrich_word_timings_with_features to_note ws pc rt rd = Some ws'"
  shows "length ws' = length ws
      \<and> (\<forall>i<length ws.
           (closed_span_values pc (wi_start (ws ! i)) (wi_end (ws ! i)) \<noteq> [] \<longrightarrow>
              wi_avg_pitch_hz (ws' ! i) = Num (sum_list (closed_span_values pc (wi_start (ws ! i)) (wi_end (ws ! i))) / real (length (closed_span_values pc (wi_start (ws ! i)) (wi_end (ws ! i)))))
            \<and> min_pitch_hz (ws' ! i) = Num (Min (set (closed_span_values pc (wi_start (ws ! i)) (wi_end (ws ! i)))))
            \<and> max_pitch_hz (ws' ! i) = Num (Max (set (closed_span_values pc (wi_start (ws ! i)) (wi_end (ws ! i))))))
         \<and> (closed_span_values pc (wi_start (ws ! i)) (wi_end (ws ! i)) = [] \<longrightarrow>
              wi_avg_pitch_hz (ws' ! i) = Null \<and> min_pitch_hz (ws' ! i) = Null
            \<and> max_pitch_hz (ws' ! i) = Null)
         \<and> (closed_span_values (zip rt rd) (wi_start (ws ! i)) (wi_end (ws ! i)) \<noteq> [] \<longrightarrow>
              wi_avg_energy_db (ws' ! i) = Num (sum_list (closed_span_values (zip rt rd) (wi_start (ws ! i)) (wi_end (ws ! i))) / real (length (closed_span_values (zip rt rd) (wi_start (ws ! i)) (wi_end (ws ! i)))))
            \<and> max_energy_db (ws' ! i) = Num (Max (set (closed_span_values (zip rt rd) (wi_start (ws ! i)) (wi_end (ws ! i))))))
         \<and> (closed_span_values (zip rt rd) (wi_start (ws ! i)) (wi_end (ws ! i)) = [] \<longrightarrow>
              wi_avg_energy_db (ws' ! i) = Null \<and> max_energy_db (ws' ! i) = Null))"
proof -
  note t = those_eq_Some [OF assms [unfolded enrich_word_timings_with_features_def]]
  have "enrich_word to_note pc rt rd (ws ! i) = Some (ws' ! i)" if "i < length ws" for i
    using t that by simp
  from enrich_word_fields [OF this] t show ?thesis by blast
qed

lemma word_timings_dual_fields:
  assumes "word_timings_dual st pc rt rd (Some tws) = Some dws"
  shows "length dws = length tws
      \<and> (\<forall>i<length tws.
            avg_pitch_hz (dws ! i) = (if closed_span_values pc (ww_start (tws ! i)) (ww_end (tws ! i)) = [] then Absent else Num (sum_list (closed_span_values pc (ww_start (tws ! i)) (ww_end (tws ! i))) / real (length (closed_span_values pc (ww_start (tws ! i)) (ww_end (tws ! i))))))
          \<and> avg_energy_db (dws ! i) = (if closed_span_values (zip rt rd) (ww_start (tws ! i)) (ww_end (tws ! i)) = [] then Absent else Num (sum_list (closed_span_values (zip rt rd) (ww_start (tws ! i)) (ww_end (tws ! i))) / real (length (closed_span_values (zip rt rd) (ww_start (tws ! i)) (ww_end (tws ! i)))))))"
proof -
  note t = those_enumerate_eq_Some [OF assms [unfolded word_timings_dual_def option.case]]
  have "dual_frame_word st pc rt rd i (tws ! i) = Some (dws ! i)" if "i < length tws" for i
    using t that by simp
  from dual_frame_word_fields [OF this] t show ?thesis by blast
qed

lemma enrichment_total:
  assumes "length rd = length rt"
  shows "(\<exists>ws'. enrich_word_timings_with_features to_note ws pc rt rd = Some ws')
      \<and> (\<exists>dws. word_timings_dual st pc rt rd (Some tws) = Some dws)"
proof
  show "\<exists>ws'. enrich_word_timings_with_features to_note ws pc rt rd = Some ws'"
    unfolding enrich_word_timings_with_features_def
    by (rule those_total) (rule enrich_word_total [OF assms])
  show "\<exists>dws. word_timings_dual st pc rt rd (Some tws) = Some dws"
    by (rule word_timings_dual_total [OF assms])
qed

text \<open>
  C7. For a word from \<open>start\<close> to \<open>end\<close>, the enricher aggregates the pitch samples and
  the energy frames whose time \<open>t\<close> satisfies \<open>start \<le> t \<le> end\<close>, both ends included, and
  no others: the averages, minima and maxima it stores are those of exactly these values.
  A word with no such pitch sample gets null pitch fields, a word with no such energy
  frame gets null energy fields (in \<^verbatim>\<open>extract_and_analyze_specific_segment\<close> the key is
  left out): never a number. The call returns whenever the two energy arrays have the
  same length.
\<close>

theorem enricher_closed_interval:
  "set (closed_span_values samples lo hi) = {v. \<exists>t. (t, v) \<in> set samples \<and> lo \<le> t \<and> t \<le> hi}
   \<and> (enrich_word_timings_with_features to_note ws pc rt rd = Some ws' \<longrightarrow>
        length ws' = length ws
      \<and> (\<forall>i<length ws.
           (closed_span_values pc (wi_start (ws ! i)) (wi_end (ws ! i)) \<noteq> [] \<longrightarrow>
              wi_avg_pitch_hz (ws' ! i) = Num (sum_list (closed_span_values pc (wi_start (ws ! i)) (wi_end (ws ! i))) / real (length (closed_span_values pc (wi_start (ws ! i)) (wi_end (ws ! i)))))
            \<and> min_pitch_hz (ws' ! i) = Num (Min (set (closed_span_values pc (wi_start (ws ! i)) (wi_end (ws ! i)))))
            \<and> max_pitch_hz (ws' ! i) = Num (Max (set (closed_span_values pc (wi_start (ws ! i)) (wi_end (ws ! i))))))
         \<and> (closed_span_values pc (wi_start (ws ! i)) (wi_end (ws ! i)) = [] \<longrightarrow>
              wi_avg_pitch_hz (ws' ! i) = Null \<and> min_pitch_hz (ws' ! i) = Null
            \<and> max_pitch_hz (ws' ! i) = Null)
         \<and> (closed_span_values (zip rt rd) (wi_start (ws ! i)) (wi_end (ws ! i)) \<noteq> [] \<longrightarrow>
              wi_avg_energy_db (ws' ! i) = Num (sum_list (closed_span_values (zip rt rd) (wi_start (ws ! i)) (wi_end (ws ! i))) / real (length (closed_span_values (zip rt rd) (wi_start (ws ! i)) (wi_end (ws ! i)))))
            \<and> max_energy_db (ws' ! i) = Num (Max (set (closed_span_values (zip rt rd) (wi_start (ws ! i)) (wi_end (ws ! i))))))
         \<and> (closed_span_values (zip rt rd) (wi_start (ws ! i)) (wi_end (ws ! i)) = [] \<longrightarrow>
              wi_avg_energy_db (ws' ! i) = Null \<and> max_energy_db (ws' ! i) = Null)))
   \<and> (word_timings_dual st pc rt rd (Some tws) = Some dws \<longrightarrow>
        length dws = length tws
      \<and> (\<forall>i<length tws.
            avg_pitch_hz (dws ! i) = (if closed_span_values pc (ww_start (tws ! i)) (ww_end (tws ! i)) = [] then Absent else Num (sum_list (closed_span_values pc (ww_start (tws ! i)) (ww_end (tws ! i))) / real (length (closed_span_values pc (ww_start (tws ! i)) (ww_end (tws ! i))))))
          \<and> avg_energy_db (dws ! i) = (if closed_span_values (zip rt rd) (ww_start (tws ! i)) (ww_end (tws ! i)) = [] then Absent else Num (sum_list (closed_span_values (zip rt rd) (ww_start (tws ! i)) (ww_end (tws ! i))) / real (length (closed_span_values (zip rt rd) (ww_start (tws ! i)) (ww_end (tws ! i))))))))
   \<and> (length rd = length rt \<longrightarrow>
        (\<exists>ws'. enrich_word_timings_with_features to_note ws pc rt rd = Some ws')
      \<and> (\<exists>dws. word_timings_dual st pc rt rd (Some tws) = Some dws))"
proof (intro conjI)
  show "set (closed_span_values samples lo hi) = {v. \<exists>t. (t, v) \<in> set samples \<and> lo \<le> t \<and> t \<le> hi}"
    by (rule closed_span_values_set)
  show "enrich_word_timings_with_features to_note ws pc rt rd = Some ws' \<longrightarrow>
        length ws' = length ws
      \<and> (\<forall>i<length ws.
           (closed_span_values pc (wi_start (ws ! i)) (wi_end (ws ! i)) \<noteq> [] \<longrightarrow>
              wi_avg_pitch_hz (ws' ! i) = Num (sum_list (closed_span_values pc (wi_start (ws ! i)) (wi_end (ws ! i))) / real (length (closed_span_values pc (wi_start (ws ! i)) (wi_end (ws ! i)))))
            \<and> min_pitch_hz (ws' ! i) = Num (Min (set (closed_span_values pc (wi_start (ws ! i)) (wi_end (ws ! i)))))
            \<and> max_pitch_hz (ws' ! i) = Num (Max (set (closed_span_values pc (wi_start (ws ! i)) (wi_end (ws ! i))))))
         \<and> (closed_span_values pc (wi_start (ws ! i)) (wi_end (ws ! i)) = [] \<longrightarrow>
              wi_avg_pitch_hz (ws' ! i) = Null \<and> min_pitch_hz (ws' ! i) = Null
            \<and> max_pitch_hz (ws' ! i) = Null)
         \<and> (closed_span_values (zip rt rd) (wi_start (ws ! i)) (wi_end (ws ! i)) \<noteq> [] \<longrightarrow>
              wi_avg_energy_db (ws' ! i) = Num (sum_list (closed_span_values (zip rt rd) (wi_start (ws ! i)) (wi_end (ws ! i))) / real (length (closed_span_values (zip rt rd) (wi_start (ws ! i)) (wi_end (ws ! i)))))
            \<and> max_energy_db (ws' ! i) = Num (Max (set (closed_span_values (zip rt rd) (wi_start (ws ! i)) (wi_end (ws ! i))))))
         \<and> (closed_span_values (zip rt rd) (wi_start (ws ! i)) (wi_end (ws ! i)) = [] \<longrightarrow>
              wi_avg_energy_db (ws' ! i) = Null \<and> max_energy_db (ws' ! i) = Null))"
    by (rule impI) (rule enrich_word_timings_fields)
  show "word_timings_dual st pc rt rd (Some tws) = Some dws \<longrightarrow>
        length dws = length tws
      \<and> (\<forall>i<length tws.
            avg_pitch_hz (dws ! i) = (if closed_span_values pc (ww_start (tws ! i)) (ww_end (tws ! i)) = [] then Absent else Num (sum_list (closed_span_values pc (ww_start (tws ! i)) (ww_end (tws ! i))) / real (length (closed_span_values pc (ww_start (tws ! i)) (ww_end (tws ! i))))))
          \<and> avg_energy_db (dws ! i) = (if closed_span_values (zip rt rd) (ww_start (tws ! i)) (ww_end (tws ! i)) = [] then Absent else Num (sum_list (closed_span_values (zip rt rd) (ww_start (tws ! i)) (ww_end (tws ! i))) / real (length (closed_span_values (zip rt rd) (ww_start (tws ! i)) (ww_end (tws ! i)))))))"
    by (rule impI) (rule word_timings_dual_fields)
  show "length rd = length rt \<longrightarrow>
        (\<exists>ws'. enrich_word_timings_with_features to_note ws pc rt rd = Some ws')
      \<and> (\<exists>dws. word_timings_dual st pc rt rd (Some tws) = Some dws)"
    by (rule impI) (rule enrichment_total)
qed

theorem enricher_closed_interval_witness:
  "length sample_rms_db = length sample_rms_times
   \<and> (\<exists>ws'. enrich_word_timings_with_features no_note sample_infos sample_pitch_contour
               sample_rms_times sample_rms_db = Some ws'
        \<and> wi_avg_pitch_hz (ws' ! 0) = Num 220 \<and> min_pitch_hz (ws' ! 0) = Num 200
        \<and> max_pitch_hz (ws' ! 0) = Num 240
        \<and> wi_avg_energy_db (ws' ! 0) = Num (- 6) \<and> max_energy_db (ws' ! 0) = Num 0
        \<and> wi_avg_pitch_hz (ws' ! 1) = Null \<and> wi_avg_energy_db (ws' ! 1) = Null)"
proof -
  have len: "length sample_rms_db = length sample_rms_times"
    by (simp add: sample_rms_db_def sample_rms_times_def)
  note inst = enricher_closed_interval [where to_note = no_note and ws = sample_infos
      and pc = sample_pitch_contour and rt = sample_rms_times and rd = sample_rms_db]
  from inst [THEN conjunct2, THEN conjunct2, THEN conjunct2, rule_format, OF len, THEN conjunct1]
  obtain ws' where e: "enrich_word_timings_with_features no_note sample_infos sample_pitch_contour
               sample_rms_times sample_rms_db = Some ws'" ..
  have w0: "wi_start (sample_infos ! 0) = 1 / 2" "wi_end (sample_infos ! 0) = 1"
    and w1: "wi_start (sample_infos ! Suc 0) = 11 / 8" "wi_end (sample_infos ! Suc 0) = 11 / 8"
    and n: "length sample_infos = 2"
    by (simp_all add: sample_infos_def sample_info_def)
  have p0: "closed_span_values sample_pitch_contour (1 / 2) 1 = [200, 240]"
    and e0: "closed_span_values (zip sample_rms_times sample_rms_db) (1 / 2) 1 = [- 12, 0, - 6]"
    and p1: "closed_span_values sample_pitch_contour (11 / 8) (11 / 8) = []"
    and e1: "closed_span_values (zip sample_rms_times sample_rms_db) (11 / 8) (11 / 8) = []"
    by (simp_all add: closed_span_values_def sample_pitch_contour_def sample_rms_times_def
          sample_rms_db_def)
  note f = inst [THEN conjunct2, THEN conjunct1, rule_format, OF e, THEN conjunct2, rule_format]
  have i0: "0 < length sample_infos" and i1: "1 < length sample_infos" by (simp_all add: n)
  from f [OF i0] f [OF i1]
  have "wi_avg_pitch_hz (ws' ! 0) = Num 220 \<and> min_pitch_hz (ws' ! 0) = Num 200
        \<and> max_pitch_hz (ws' ! 0) = Num 240
        \<and> wi_avg_energy_db (ws' ! 0) = Num (- 6) \<and> max_energy_db (ws' ! 0) = Num 0
        \<and> wi_avg_pitch_hz (ws' ! 1) = Null \<and> wi_avg_energy_db (ws' ! 1) = Null"
    by (simp add: n w0 w1 p0 e0 p1 e1)
  with len e show ?thesis by blast
qed

subsection \<open>Dual-frame consistency\<close>






section \<open>Properties of the synthesis loop\<close>

lemma str_nat_digits:
  "str_nat (Suc 0) = ''1''" "str_nat 2 = ''2''" "str_nat 3 = ''3''" "str_nat 4 = ''4''"
  by code_simp+

lemma generate_target_chunk_total:
  assumes "fs (chunk_path c) = Some r"
  shows "\<exists>fs1. generate_target_chunk cosyvoice to_16k_mono fs c p =
           Some (fs1, if synthesis_failed (cosyvoice (target_text c) (to_16k_mono r)) then None
                      else Some p)"
  using assms
  by (simp add: generate_target_chunk_def synthesis_failed_def split: inference.splits)

lemma generate_target_chunk_frame:
  assumes "generate_target_chunk cosyvoice to_16k_mono fs c p = Some (fs1, res)"
  shows "\<forall>q. q \<noteq> p \<longrightarrow> fs1 q = fs q"
  using assms
  by (auto simp: generate_target_chunk_def Let_def split: option.splits inference.splits if_splits)

lemma chunk_outputs_loop_map:
  assumes "\<forall>c\<in>set chunks. fs (chunk_path c) = fs0 (chunk_path c) \<and> fs0 (chunk_path c) \<noteq> None"
    and "\<forall>c\<in>set chunks. \<forall>c'\<in>set chunks.
           target_output_path output_dir language part_name c \<noteq> chunk_path c'"
  shows "\<exists>fs1. chunk_outputs_loop cosyvoice to_16k_mono output_dir language part_name fs chunks =
           Some (fs1,
             map (\<lambda>c. if synthesis_failed
                            (cosyvoice (target_text c) (to_16k_mono (the (fs0 (chunk_path c)))))
                       then None
                       else Some (target_output_path output_dir language part_name c)) chunks)"
  using assms
proof (induction chunks arbitrary: fs)
  case Nil
  show ?case by simp
next
  case (Cons c cs)
  let ?p = "target_output_path output_dir language part_name c"
  from Cons.prems(1) obtain r where r: "fs (chunk_path c) = Some r" "fs0 (chunk_path c) = Some r"
    by auto
  from generate_target_chunk_total [where fs = fs, OF r(1)]
  obtain fs1 where s: "generate_target_chunk cosyvoice to_16k_mono fs c ?p =
      Some (fs1, if synthesis_failed (cosyvoice (target_text c) (to_16k_mono r)) then None
                 else Some ?p)"
    by blast
  note fr = generate_target_chunk_frame [OF s]
  have a: "\<forall>c'\<in>set cs. fs1 (chunk_path c') = fs0 (chunk_path c') \<and> fs0 (chunk_path c') \<noteq> None"
  proof
    fix c' assume c': "c' \<in> set cs"
    with Cons.prems(2) have "chunk_path c' \<noteq> ?p" by (metis list.set_intros)
    with fr have "fs1 (chunk_path c') = fs (chunk_path c')" by simp
    with Cons.prems(1) c' show "fs1 (chunk_path c') = fs0 (chunk_path c') \<and> fs0 (chunk_path c') \<noteq> None"
      by simp
  qed
  have b: "\<forall>c\<in>set cs. \<forall>c'\<in>set cs.
           target_output_path output_dir language part_name c \<noteq> chunk_path c'"
    using Cons.prems(2) by simp
  from Cons.IH [OF a b] obtain fs2 where
    "chunk_outputs_loop cosyvoice to_16k_mono output_dir language part_name fs1 cs =
           Some (fs2,
             map (\<lambda>c. if synthesis_failed
                            (cosyvoice (target_text c) (to_16k_mono (the (fs0 (chunk_path c)))))
                       then None
                       else Some (target_output_path output_dir language part_name c)) cs)"
    by blast
  with s r(2) show ?case by simp
qed

lemma merge_step_None:
  "foldl (merge_step fs) acc (filter (\<lambda>r. r \<noteq> None) outs) = foldl (merge_step fs) acc outs"
  by (induction outs arbitrary: acc) (simp_all add: merge_step_def)

lemma merge_step_missing:
  "foldl (merge_step fs) acc (filter (\<lambda>r. case r of None \<Rightarrow> False | Some p \<Rightarrow> p \<in> dom fs) outs)
     = foldl (merge_step fs) acc outs"
  by (induction outs arbitrary: acc) (auto simp: merge_step_def split: option.splits)

text \<open>
  C8. Whenever the reference files of the chunks are on disk, and no output file is one
  of them, the run over a sequence of chunks returns, with a merged file, for every
  behaviour of the synthesis engine. The list of outputs has one entry per chunk, in
  order: null for exactly the chunks whose synthesis raised or gave no output, and the
  output path for every other chunk, before and after a failed one. The merge never
  fails: null outputs and outputs whose file is missing add nothing to the merged audio.
\<close>

theorem synthesis_failure_isolated:
  assumes "\<forall>c\<in>set chunks. chunk_path c \<in> dom fs"
    and "\<forall>c\<in>set chunks. \<forall>c'\<in>set chunks.
           target_output_path output_dir language part_name c \<noteq> chunk_path c'"
  shows "\<exists>fs1 outs fs2 final.
           chunk_outputs_loop cosyvoice to_16k_mono output_dir language part_name fs chunks
             = Some (fs1, outs)
         \<and> length outs = length chunks
         \<and> (\<forall>i<length chunks.
              outs ! i =
                (if synthesis_failed (cosyvoice (target_text (chunks ! i))
                                        (to_16k_mono (the (fs (chunk_path (chunks ! i))))))
                 then None
                 else Some (target_output_path output_dir language part_name (chunks ! i))))
         \<and> process_segment cosyvoice to_16k_mono output_dir language part_name fs chunks
             = Some (fs2, final)
         \<and> (fs2, final) = merge_target_chunks fs1 outs final
         \<and> merge_target_chunks fs1 outs final
             = merge_target_chunks fs1 (filter (\<lambda>r. r \<noteq> None) outs) final
         \<and> merge_target_chunks fs1 outs final
             = merge_target_chunks fs1
                 (filter (\<lambda>r. case r of None \<Rightarrow> False | Some p \<Rightarrow> p \<in> dom fs1) outs) final"
proof -
  let ?outs = "map (\<lambda>c. if synthesis_failed
                            (cosyvoice (target_text c) (to_16k_mono (the (fs (chunk_path c)))))
                       then None
                       else Some (target_output_path output_dir language part_name c)) chunks"
  let ?final = "output_dir @ ''/'' @ language @ ''_'' @ part_name @ ''_merged.wav''"
  from assms(1) have "\<forall>c\<in>set chunks. fs (chunk_path c) = fs (chunk_path c) \<and> fs (chunk_path c) \<noteq> None"
    by auto
  from chunk_outputs_loop_map [OF this assms(2)] obtain fs1 where
    l: "chunk_outputs_loop cosyvoice to_16k_mono output_dir language part_name fs chunks
          = Some (fs1, ?outs)"
    by blast
  have p: "process_segment cosyvoice to_16k_mono output_dir language part_name fs chunks
          = Some (merge_target_chunks fs1 ?outs ?final)"
    by (simp add: process_segment_def l)
  obtain fs2 where m: "merge_target_chunks fs1 ?outs ?final = (fs2, ?final)"
    by (simp add: merge_target_chunks_def Let_def)
  have n: "merge_target_chunks fs1 ?outs ?final
             = merge_target_chunks fs1 (filter (\<lambda>r. r \<noteq> None) ?outs) ?final"
    unfolding merge_target_chunks_def merge_step_None ..
  have e: "merge_target_chunks fs1 ?outs ?final
             = merge_target_chunks fs1
                 (filter (\<lambda>r. case r of None \<Rightarrow> False | Some p \<Rightarrow> p \<in> dom fs1) ?outs) ?final"
    unfolding merge_target_chunks_def merge_step_missing ..
  have i: "\<forall>i<length chunks.
              ?outs ! i =
                (if synthesis_failed (cosyvoice (target_text (chunks ! i))
                                        (to_16k_mono (the (fs (chunk_path (chunks ! i))))))
                 then None
                 else Some (target_output_path output_dir language part_name (chunks ! i)))"
    by simp
  have len: "length ?outs = length chunks" by simp
  from l len i p m n e show ?thesis
    by (intro exI [of _ fs1] exI [of _ ?outs] exI [of _ fs2] exI [of _ ?final] conjI) simp_all
qed

theorem synthesis_failure_isolated_witness:
  "set (map chunk_path sample_chunks) \<subseteq> dom sample_files
   \<and> set (map (target_output_path ''out'' ''es'' ''p1'') sample_chunks)
         \<inter> set (map chunk_path sample_chunks) = {}
   \<and> (\<exists>fs1 outs fs2 final.
          chunk_outputs_loop sample_engine (\<lambda>a. a) ''out'' ''es'' ''p1'' sample_files sample_chunks
            = Some (fs1, outs)
        \<and> length outs = 4
        \<and> outs ! 0 = Some ''out/es_p1_line_1.wav''
        \<and> outs ! 1 = None
        \<and> outs ! 2 = None
        \<and> outs ! 3 = Some ''out/es_p1_line_4.wav''
        \<and> process_segment sample_engine (\<lambda>a. a) ''out'' ''es'' ''p1'' sample_files sample_chunks
            = Some (fs2, final))"
proof -
  have paths: "map chunk_path sample_chunks = [''c1'', ''c2'', ''c3'', ''c4'']"
    and texts: "map target_text sample_chunks = [''uno'', ''dos'', ''tres'', ''cuatro'']"
    and outs: "map (target_output_path ''out'' ''es'' ''p1'') sample_chunks
         = [''out/es_p1_line_1.wav'', ''out/es_p1_line_2.wav'', ''out/es_p1_line_3.wav'',
            ''out/es_p1_line_4.wav'']"
    and n: "length sample_chunks = 4"
    by (simp_all add: sample_chunks_def sample_chunk_def target_output_path_def str_int_def
          str_nat_digits)
  have a: "\<forall>c\<in>set sample_chunks. chunk_path c \<in> dom sample_files"
  proof
    fix c assume "c \<in> set sample_chunks"
    then have "chunk_path c \<in> set (map chunk_path sample_chunks)" by simp
    then show "chunk_path c \<in> dom sample_files" unfolding paths by (auto simp: sample_files_def)
  qed
  have b: "\<forall>c\<in>set sample_chunks. \<forall>c'\<in>set sample_chunks.
          target_output_path ''out'' ''es'' ''p1'' c \<noteq> chunk_path c'"
  proof (intro ballI)
    fix c c' assume "c \<in> set sample_chunks" "c' \<in> set sample_chunks"
    then have "target_output_path ''out'' ''es'' ''p1'' c
                 \<in> set (map (target_output_path ''out'' ''es'' ''p1'') sample_chunks)"
      and "chunk_path c' \<in> set (map chunk_path sample_chunks)" by simp_all
    then show "target_output_path ''out'' ''es'' ''p1'' c \<noteq> chunk_path c'"
      unfolding paths outs by auto
  qed
  from synthesis_failure_isolated [OF a b, of sample_engine "\<lambda>a. a"]
  obtain fs1 res fs2 final where
    l: "chunk_outputs_loop sample_engine (\<lambda>a. a) ''out'' ''es'' ''p1'' sample_files sample_chunks
            = Some (fs1, res)"
    and len: "length res = length sample_chunks"
    and i: "\<forall>i<length sample_chunks.
              res ! i =
                (if synthesis_failed (sample_engine (target_text (sample_chunks ! i))
                                        (the (sample_files (chunk_path (sample_chunks ! i)))))
                 then None
                 else Some (target_output_path ''out'' ''es'' ''p1'' (sample_chunks ! i)))"
    and p: "process_segment sample_engine (\<lambda>a. a) ''out'' ''es'' ''p1'' sample_files sample_chunks
            = Some (fs2, final)"
    by blast
  have t: "target_text (sample_chunks ! i) = map target_text sample_chunks ! i"
    and o: "target_output_path ''out'' ''es'' ''p1'' (sample_chunks ! i)
              = map (target_output_path ''out'' ''es'' ''p1'') sample_chunks ! i"
    if "i < 4" for i using that by (simp_all add: n)
  have r0: "res ! 0 = Some ''out/es_p1_line_1.wav''"
    using i [rule_format, of 0] by (simp add: n t o texts outs sample_engine_def synthesis_failed_def)
  have r1: "res ! 1 = None"
    using i [rule_format, of 1] by (simp add: n t o texts outs sample_engine_def synthesis_failed_def)
  have r2: "res ! 2 = None"
    using i [rule_format, of 2] by (simp add: n t o texts outs sample_engine_def synthesis_failed_def)
  have r3: "res ! 3 = Some ''out/es_p1_line_4.wav''"
    using i [rule_format, of 3] by (simp add: n t o texts outs sample_engine_def synthesis_failed_def)
  from len have l4: "length res = 4" by (simp add: n)
  from l l4 r0 r1 r2 r3 p
  have "\<exists>fs1 outs fs2 final.
          chunk_outputs_loop sample_engine (\<lambda>a. a) ''out'' ''es'' ''p1'' sample_files sample_chunks
            = Some (fs1, outs)
        \<and> length outs = 4
        \<and> outs ! 0 = Some ''out/es_p1_line_1.wav''
        \<and> outs ! 1 = None
        \<and> outs ! 2 = None
        \<and> outs ! 3 = Some ''out/es_p1_line_4.wav''
        \<and> process_segment sample_engine (\<lambda>a. a) ''out'' ''es'' ''p1'' sample_files sample_chunks
            = Some (fs2, final)"
    by blast
  moreover have "set (map chunk_path sample_chunks) \<subseteq> dom sample_files"
    using a by auto
  moreover have "set (map (target_output_path ''out'' ''es'' ''p1'') sample_chunks)
         \<inter> set (map chunk_path sample_chunks) = {}"
    using b by auto
  ultimately show ?thesis by (intro conjI)
qed

section \<open>Properties of the duration reconciliation\<close>











section \<open>Properties of the timeline assembler\<close>













section \<open>Properties of the trimming\<close>






lemma report_paths_differ:
  "folder @ ''/analysis_report_trimmed.json'' \<noteq> folder @ ''/analysis_report.json''"
  by simp









end
